theory Spec2Isabelle
  imports Main "HOL-Library.AList" "HOL-Library.Word"
begin

section \<open>Python values and dictionaries\<close>

text \<open>
  The program is a FastAPI application (\<^verbatim>\<open>app.py\<close>) over a persistence layer
  (\<^verbatim>\<open>database.py\<close>). Documents, form data, results and the session are Python
  dictionaries from field names to values. Strings are byte lists (a \<open>str\<close> is seen
  through its UTF-8 bytes).

  A \<open>datetime\<close> is carried by the text \<open>str()\<close> prints for it; \<open>PyOther\<close> is a
  value of any other Python type (a list of tags, a number), known through the two
  observations the program makes of a value: its truth value and its \<open>str()\<close> text.
\<close>

datatype datetime = Datetime (isoformat: string)

datatype pyval =
    PyNone
  | PyStr string
  | PyBool bool
  | PyDatetime datetime
  | PyObjectId "96 word"
  | PyOther bool string

type_synonym pydict = "(string \<times> pyval) list"

datatype py_error =
    KeyError string
  | TypeError
  | ValueError
  | OSError
  | DuplicateKeyError

text \<open>\<open>bool(v)\<close>: the truth value the \<open>if\<close>, \<open>not\<close> and \<open>all\<close> of the source test.\<close>

fun truthy :: "pyval \<Rightarrow> bool" where
  "truthy PyNone = False"
| "truthy (PyStr s) = (s \<noteq> [])"
| "truthy (PyBool b) = b"
| "truthy (PyDatetime d) = True"
| "truthy (PyObjectId i) = True"
| "truthy (PyOther b s) = b"

text \<open>\<open>'%0<n>x' % x\<close>: \<open>n\<close> lowercase hexadecimal digits (of \<open>x mod 16 ^ n\<close>).\<close>

definition hexdigit :: "nat \<Rightarrow> char" where
  "hexdigit d = ''0123456789abcdef'' ! (d mod 16)"

fun hex :: "nat \<Rightarrow> nat \<Rightarrow> string" where
  "hex 0 x = []"
| "hex (Suc n) x = hex n (x div 16) @ [hexdigit (x mod 16)]"

text \<open>\<open>str(v)\<close>; an ObjectId prints as its 12 bytes in 24 hexadecimal digits.\<close>

fun py_str :: "pyval \<Rightarrow> string" where
  "py_str PyNone = ''None''"
| "py_str (PyStr s) = s"
| "py_str (PyBool b) = (if b then ''True'' else ''False'')"
| "py_str (PyDatetime d) = isoformat d"
| "py_str (PyObjectId i) = hex 24 (unat i)"
| "py_str (PyOther b s) = s"

text \<open>
  Dictionary operations. A dictionary is an association list in insertion order;
  \<open>d[k] = v\<close> replaces the value of an existing key in place and appends a new key,
  which is \<open>AList.update\<close>; \<open>del d[k]\<close> is \<open>AList.delete\<close>.
\<close>

definition dict_get :: "pydict \<Rightarrow> string \<Rightarrow> pyval" where
  "dict_get d k = (case map_of d k of None \<Rightarrow> PyNone | Some v \<Rightarrow> v)"

definition dict_index :: "pydict \<Rightarrow> string \<Rightarrow> py_error + pyval" where
  "dict_index d k = (case map_of d k of None \<Rightarrow> Inl (KeyError k) | Some v \<Rightarrow> Inr v)"

definition dict_set :: "pydict \<Rightarrow> string \<Rightarrow> pyval \<Rightarrow> pydict" where
  "dict_set d k v = AList.update k v d"

definition dict_del :: "pydict \<Rightarrow> string \<Rightarrow> pydict" where
  "dict_del d k = AList.delete k d"

definition dict_pop :: "pydict \<Rightarrow> string \<Rightarrow> pyval \<Rightarrow> pyval \<times> pydict" where
  "dict_pop d k dflt =
     (case map_of d k of None \<Rightarrow> (dflt, d) | Some v \<Rightarrow> (v, AList.delete k d))"

section \<open>The environment and the world\<close>

text \<open>
  What the libraries and the platform compute is a parameter of the model: the random
  UUIDs, the clock, the ObjectIds the driver generates, passlib's bcrypt context (which
  may raise), and the longest file name the file system accepts (\<open>NAME_MAX\<close>, 255
  bytes on the usual Linux file systems). The draws are functions of the number of
  draws made so far (\<open>tick\<close>), so a run is determined by its environment.

  Failures that the call itself determines (a file name the file system refuses, a
  document that brings an identifier already in use, a missing key) are results of
  the model. An environment that breaks down (a full disk, an unreachable database)
  is outside it.
\<close>

record env =
  uuid4_int :: "nat \<Rightarrow> 128 word"
  utcnow :: "nat \<Rightarrow> datetime"
  new_object_id :: "nat \<Rightarrow> 96 word"
  pwd_hash :: "pyval \<Rightarrow> nat \<Rightarrow> py_error + string"
  pwd_verify :: "string \<Rightarrow> pyval \<Rightarrow> py_error + bool"
  name_max :: nat

type_synonym bytes = "8 word list"

text \<open>
  The five collections of the database \<^verbatim>\<open>website\<close>, in the store's natural
  (insertion) order, the files on disk (path to content), and the draw counter.
\<close>

record world =
  projects_collection :: "pydict list"
  members_collection :: "pydict list"
  gallery_collection :: "pydict list"
  blogs_collection :: "pydict list"
  users_collection :: "pydict list"
  disk :: "(string \<times> bytes) list"
  tick :: nat

text \<open>
  \<open>insert_one\<close> of the driver: a document without \<open>_id\<close> gets a newly generated
  ObjectId (unique by construction, so not checked again); a document that brings its
  own \<open>_id\<close> is refused when the collection holds that identifier already. The
  server's other validation of documents is outside the model.
\<close>

definition insert_one ::
  "env \<Rightarrow> nat \<Rightarrow> pydict list \<Rightarrow> pydict \<Rightarrow> py_error + (pydict list \<times> nat)" where
  "insert_one e t coll doc =
     (case map_of doc ''_id'' of
        None \<Rightarrow> Inr (coll @ [dict_set doc ''_id'' (PyObjectId (new_object_id e t))], Suc t)
      | Some i \<Rightarrow>
          if list_ex (\<lambda>d. map_of d ''_id'' = Some i) coll then Inl DuplicateKeyError
          else Inr (coll @ [doc], t))"

text \<open>
  \<open>find_one({k: v})\<close>: the first document whose field \<open>k\<close> equals \<open>v\<close>; a query
  for \<open>None\<close> also matches a document without the field.
\<close>

definition matches :: "pydict \<Rightarrow> string \<Rightarrow> pyval \<Rightarrow> bool" where
  "matches d k v = (case map_of d k of None \<Rightarrow> v = PyNone | Some x \<Rightarrow> x = v)"

definition find_one :: "pydict list \<Rightarrow> string \<Rightarrow> pyval \<Rightarrow> pydict option" where
  "find_one coll k v = List.find (\<lambda>d. matches d k v) coll"

section \<open>database.py: the file store\<close>

definition UPLOAD_DIR :: string where
  "UPLOAD_DIR = ''uploads''"

text \<open>An \<open>UploadFile\<close>: its \<open>filename\<close> (a string or \<open>None\<close>) and the bytes \<open>read()\<close> returns.\<close>

record upload_file =
  filename :: "string option"
  content :: bytes

text \<open>\<open>p.rfind(c)\<close>: the highest index of \<open>c\<close> in \<open>p\<close>, or \<open>-1\<close>.\<close>

fun rfind :: "string \<Rightarrow> char \<Rightarrow> int" where
  "rfind [] c = -1"
| "rfind (x # xs) c =
     (let r = rfind xs c in if 0 \<le> r then r + 1 else if x = c then 0 else -1)"

text \<open>\<open>p[i:j]\<close> for indices that are not negative.\<close>

definition slice :: "string \<Rightarrow> int \<Rightarrow> int \<Rightarrow> string" where
  "slice p i j = take (nat (j - i)) (drop (nat i) p)"

text \<open>
  \<open>os.path.splitext\<close> (POSIX): the extension starts at the last dot of the last
  path component, unless that component has only dots before it.
\<close>

function splitext_loop :: "string \<Rightarrow> int \<Rightarrow> int \<Rightarrow> string \<times> string" where
  "splitext_loop p filenameIndex dotIndex =
     (if filenameIndex < dotIndex then
        (if slice p filenameIndex (filenameIndex + 1) \<noteq> ''.''
         then (take (nat dotIndex) p, drop (nat dotIndex) p)
         else splitext_loop p (filenameIndex + 1) dotIndex)
      else (p, []))"
  by pat_completeness auto
termination
  by (relation "measure (\<lambda>(p, filenameIndex, dotIndex). nat (dotIndex - filenameIndex))") auto

definition splitext :: "string \<Rightarrow> string \<times> string" where
  "splitext p =
     (let sepIndex = rfind p CHR ''/'';
          dotIndex = rfind p CHR ''.''
      in if dotIndex > sepIndex then splitext_loop p (sepIndex + 1) dotIndex else (p, []))"

text \<open>\<open>os.path.join(a, b)\<close> (POSIX).\<close>

definition path_join :: "string \<Rightarrow> string \<Rightarrow> string" where
  "path_join a b =
     (if take 1 b = ''/'' then b
      else if a = [] \<or> last a = CHR ''/'' then a @ b
      else a @ ''/'' @ b)"

text \<open>\<open>os.path.basename\<close> (POSIX): what follows the last \<open>/\<close>.\<close>

definition basename :: "string \<Rightarrow> string" where
  "basename p = drop (nat (rfind p CHR ''/'' + 1)) p"

text \<open>
  Opening a path for writing (\<open>open(file_path, "wb")\<close>) is refused for a path with a
  NUL byte (\<open>ValueError\<close>: embedded null byte) and for a file name longer than the file
  system accepts (\<open>OSError\<close>: file name too long). The file is neither created nor
  changed then.
\<close>

definition open_wb_error :: "env \<Rightarrow> string \<Rightarrow> py_error option" where
  "open_wb_error e file_path =
     (if CHR 0x00 \<in> set file_path then Some ValueError
      else if name_max e < length (basename file_path) then Some OSError
      else None)"

text \<open>
  \<open>save_upload_file\<close> returns a value or raises, and leaves a world behind. An
  \<open>UploadFile\<close> object is always true, so \<open>not upload_file\<close> holds of \<open>None\<close> only.
  When the file is opened, writing creates it or replaces its content. When opening is
  refused the exception leaves the function: nothing is written and nothing returned.
\<close>

definition save_upload_file ::
  "env \<Rightarrow> upload_file option \<Rightarrow> world \<Rightarrow> (py_error + pyval) \<times> world" where
  "save_upload_file e upload_file w =
     (case upload_file of
        None \<Rightarrow> (Inr PyNone, w)
      | Some f \<Rightarrow>
          (case filename f of
             None \<Rightarrow> (Inr PyNone, w)
           | Some fname \<Rightarrow>
               if fname = [] then (Inr PyNone, w)
               else
                 let file_extension = snd (splitext fname);
                     unique_filename = hex 32 (unat (uuid4_int e (tick w))) @ file_extension;
                     file_path = path_join UPLOAD_DIR unique_filename;
                     w1 = w\<lparr>tick := Suc (tick w)\<rparr>
                 in (case open_wb_error e file_path of
                       Some err \<Rightarrow> (Inl err, w1)
                     | None \<Rightarrow>
                         (Inr (PyStr (''/'' @ UPLOAD_DIR @ ''/'' @ unique_filename)),
                          w1\<lparr>disk := AList.update file_path (content f) (disk w)\<rparr>))))"

section \<open>database.py: reading\<close>

definition mongo_id_serializer :: "pydict \<Rightarrow> pydict" where
  "mongo_id_serializer doc =
     (case map_of doc ''_id'' of
        None \<Rightarrow> doc
      | Some i \<Rightarrow> dict_del (dict_set doc ''id'' (PyStr (py_str i))) ''_id'')"

text \<open>\<open>if d:\<close> on a value that is a dictionary or \<open>None\<close>.\<close>

definition dict_truthy :: "pydict option \<Rightarrow> bool" where
  "dict_truthy r = (case r of None \<Rightarrow> False | Some d \<Rightarrow> d \<noteq> [])"

definition get_user_by_email :: "pyval \<Rightarrow> world \<Rightarrow> pydict option" where
  "get_user_by_email email w =
     (let user = find_one (users_collection w) ''email'' email
      in if dict_truthy user then map_option mongo_id_serializer user else None)"

text \<open>The loop \<open>async for doc in collection.find(): result.append(mongo_id_serializer(doc))\<close>.\<close>

fun serialize_cursor :: "pydict list \<Rightarrow> pydict list \<Rightarrow> pydict list" where
  "serialize_cursor result [] = result"
| "serialize_cursor result (doc # cursor) =
     serialize_cursor (result @ [mongo_id_serializer doc]) cursor"

definition get_all_projects :: "world \<Rightarrow> pydict list" where
  "get_all_projects w = serialize_cursor [] (projects_collection w)"

definition get_all_members :: "world \<Rightarrow> pydict list" where
  "get_all_members w = serialize_cursor [] (members_collection w)"

definition get_all_users :: "world \<Rightarrow> pydict list" where
  "get_all_users w = serialize_cursor [] (users_collection w)"

definition get_all_gallery_items :: "world \<Rightarrow> pydict list" where
  "get_all_gallery_items w = serialize_cursor [] (gallery_collection w)"

definition get_all_blogs :: "world \<Rightarrow> pydict list" where
  "get_all_blogs w = serialize_cursor [] (blogs_collection w)"

section \<open>database.py: adding\<close>

text \<open>
  Every operation returns the dictionary it answers with, or the exception it raises,
  and the world it leaves behind. The caller's dictionary is the document inserted.
\<close>

definition result_dict :: "string \<Rightarrow> string \<Rightarrow> pydict" where
  "result_dict st msg = [(''status'', PyStr st), (''message'', PyStr msg)]"

definition add_project ::
  "env \<Rightarrow> pydict \<Rightarrow> upload_file option \<Rightarrow> world \<Rightarrow> (py_error + pydict) \<times> world" where
  "add_project e project_data image_file w =
     (case save_upload_file e image_file w of
        (Inl err, w1) \<Rightarrow> (Inl err, w1)
      | (Inr image_url, w1) \<Rightarrow>
          (let project_data1 =
                 (if truthy image_url then dict_set project_data ''imageUrl'' image_url
                  else project_data);
               project_data2 = dict_set project_data1 ''createdAt'' (PyDatetime (utcnow e (tick w1)));
               w2 = w1\<lparr>tick := Suc (tick w1)\<rparr>
           in case insert_one e (tick w2) (projects_collection w2) project_data2 of
                Inl err \<Rightarrow> (Inl err, w2)
              | Inr (coll, t) \<Rightarrow>
                  (Inr (result_dict ''success'' ''Project added successfully''),
                   w2\<lparr>projects_collection := coll, tick := t\<rparr>)))"

text \<open>
  The optional files of \<open>add_member\<close>: \<open>if photo_file: member_doc[key] = await
  save_upload_file(photo_file)\<close>. An exception of the save leaves \<open>add_member\<close>.
\<close>

definition attach_file ::
  "env \<Rightarrow> string \<Rightarrow> upload_file option \<Rightarrow> pydict \<times> world
     \<Rightarrow> (py_error + pydict) \<times> world" where
  "attach_file e key file dw =
     (case file of
        None \<Rightarrow> (Inr (fst dw), snd dw)
      | Some f \<Rightarrow>
          (case save_upload_file e file (snd dw) of
             (Inl err, w') \<Rightarrow> (Inl err, w')
           | (Inr url, w') \<Rightarrow> (Inr (dict_set (fst dw) key url), w')))"

definition add_member ::
  "env \<Rightarrow> pydict \<Rightarrow> upload_file option \<Rightarrow> upload_file option \<Rightarrow> world
     \<Rightarrow> (py_error + pydict) \<times> world" where
  "add_member e member_data0 photo_file resume_file w0 =
     (let (is_admin, member_data) = dict_pop member_data0 ''isAdmin'' (PyBool False);
          name = dict_get member_data ''name'';
          email = dict_get member_data ''email'';
          password = dict_get member_data ''password'';
          member_doc =
            [(''name'', name),
             (''role'', dict_get member_data ''role''),
             (''linkedin'', dict_get member_data ''linkedin''),
             (''github'', dict_get member_data ''github''),
             (''email'', email),
             (''createdAt'', PyDatetime (utcnow e (tick w0)))];
          w1 = w0\<lparr>tick := Suc (tick w0)\<rparr>
      in case attach_file e ''photoUrl'' photo_file (member_doc, w1) of
           (Inl err, w2) \<Rightarrow> (Inl err, w2)
         | (Inr member_doc1, w2) \<Rightarrow>
             (case attach_file e ''resumeUrl'' resume_file (member_doc1, w2) of
                (Inl err, w3) \<Rightarrow> (Inl err, w3)
              | (Inr member_doc2, w3) \<Rightarrow>
                  (case insert_one e (tick w3) (members_collection w3) member_doc2 of
                     Inl err \<Rightarrow> (Inl err, w3)
                   | Inr (coll, t) \<Rightarrow>
                       (let w4 = w3\<lparr>members_collection := coll, tick := t\<rparr>
                        in if truthy is_admin then
                             (if \<not> (truthy name \<and> truthy email \<and> truthy password) then
                                (Inr (result_dict ''error''
                                        ''Admin user requires a name, email, and password.''),
                                 w4)
                              else if dict_truthy (get_user_by_email email w4) then
                                (Inr (result_dict ''error''
                                        ''A user with this email already exists.''), w4)
                              else
                                (case pwd_hash e password (tick w4) of
                                   Inl err \<Rightarrow> (Inl err, w4)
                                 | Inr hashed_password \<Rightarrow>
                                     (let user_doc =
                                            [(''name'', name),
                                             (''email'', email),
                                             (''password'', PyStr hashed_password),
                                             (''createdAt'',
                                              PyDatetime (utcnow e (Suc (tick w4))))];
                                          w5 = w4\<lparr>tick := Suc (Suc (tick w4))\<rparr>
                                      in case insert_one e (tick w5) (users_collection w5)
                                                user_doc of
                                           Inl err \<Rightarrow> (Inl err, w5)
                                         | Inr (ucoll, t') \<Rightarrow>
                                             (Inr (result_dict ''success''
                                                     ''Admin member and user created successfully''),
                                              w5\<lparr>users_collection := ucoll, tick := t'\<rparr>))))
                           else
                             (Inr (result_dict ''success'' ''Member added successfully''),
                              w4)))))"

definition add_gallery_item ::
  "env \<Rightarrow> pydict \<Rightarrow> upload_file option \<Rightarrow> world \<Rightarrow> (py_error + pydict) \<times> world" where
  "add_gallery_item e gallery_data image_file w =
     (case save_upload_file e image_file w of
        (Inl err, w1) \<Rightarrow> (Inl err, w1)
      | (Inr image_url, w1) \<Rightarrow>
          (let gallery_data1 =
                 (if truthy image_url then dict_set gallery_data ''imageUrl'' image_url
                  else gallery_data);
               gallery_data2 = dict_set gallery_data1 ''createdAt'' (PyDatetime (utcnow e (tick w1)));
               w2 = w1\<lparr>tick := Suc (tick w1)\<rparr>
           in case insert_one e (tick w2) (gallery_collection w2) gallery_data2 of
                Inl err \<Rightarrow> (Inl err, w2)
              | Inr (coll, t) \<Rightarrow>
                  (Inr (result_dict ''success'' ''Gallery item added successfully''),
                   w2\<lparr>gallery_collection := coll, tick := t\<rparr>)))"

definition add_blog ::
  "env \<Rightarrow> pydict \<Rightarrow> upload_file option \<Rightarrow> world \<Rightarrow> (py_error + pydict) \<times> world" where
  "add_blog e blog_data image_file w =
     (case save_upload_file e image_file w of
        (Inl err, w1) \<Rightarrow> (Inl err, w1)
      | (Inr image_url, w1) \<Rightarrow>
          (let blog_data1 =
                 (if truthy image_url then dict_set blog_data ''imageUrl'' image_url
                  else blog_data);
               blog_data2 = dict_set blog_data1 ''createdAt'' (PyDatetime (utcnow e (tick w1)));
               w2 = w1\<lparr>tick := Suc (tick w1)\<rparr>
           in case insert_one e (tick w2) (blogs_collection w2) blog_data2 of
                Inl err \<Rightarrow> (Inl err, w2)
              | Inr (coll, t) \<Rightarrow>
                  (Inr (result_dict ''success'' ''Blog post added successfully''),
                   w2\<lparr>blogs_collection := coll, tick := t\<rparr>)))"

section \<open>app.py: the session and the login gate\<close>

text \<open>
  \<open>urllib.parse.quote(s, safe)\<close>: a byte that is a letter, a digit, one of \<open>_.-~\<close> or
  listed in \<open>safe\<close> stays; any other byte becomes \<open>%XX\<close> in upper-case hexadecimal.
\<close>

definition ALWAYS_SAFE :: string where
  "ALWAYS_SAFE = ''ABCDEFGHIJKLMNOPQRSTUVWXYZabcdefghijklmnopqrstuvwxyz0123456789_.-~''"

definition hexdigit_upper :: "nat \<Rightarrow> char" where
  "hexdigit_upper d = ''0123456789ABCDEF'' ! (d mod 16)"

definition quote_byte :: "char \<Rightarrow> string" where
  "quote_byte c =
     [CHR ''%'', hexdigit_upper (of_char c div 16), hexdigit_upper (of_char c mod 16)]"

definition quote :: "string \<Rightarrow> string \<Rightarrow> string" where
  "quote s safe =
     concat (map (\<lambda>c. if c \<in> set (ALWAYS_SAFE @ safe) then [c] else quote_byte c) s)"

text \<open>A request: its session dictionary and \<open>str(request.url)\<close>.\<close>

record request =
  session :: pydict
  url :: string

datatype http_exception = HTTPException nat "(string \<times> string) list"

datatype response = RedirectResponse string nat

definition HTTP_303_SEE_OTHER :: nat where
  "HTTP_303_SEE_OTHER = 303"

definition HTTP_307_TEMPORARY_REDIRECT :: nat where
  "HTTP_307_TEMPORARY_REDIRECT = 307"

definition get_current_user :: "request \<Rightarrow> world \<Rightarrow> pydict option" where
  "get_current_user req w =
     (let user_email = dict_get (session req) ''user_email''
      in if truthy user_email then get_user_by_email user_email w else None)"

definition require_login :: "request \<Rightarrow> world \<Rightarrow> http_exception + pydict" where
  "require_login req w =
     (let user = get_current_user req w;
          next_url = quote (url req) [];
          redirect_url = ''/login?next='' @ next_url;
          exn = HTTPException HTTP_307_TEMPORARY_REDIRECT [(''Location'', redirect_url)]
      in case user of
           None \<Rightarrow> Inl exn
         | Some u \<Rightarrow> if u = [] then Inl exn else Inr u)"

text \<open>\<open>s.startswith("/")\<close>.\<close>

definition startswith_slash :: "string \<Rightarrow> bool" where
  "startswith_slash s = (take 1 s = ''/'')"

text \<open>
  \<open>handle_login\<close> answers with a response, or raises, and leaves a session behind.
  The form fields \<open>email\<close>, \<open>password\<close> and \<open>next_url\<close> are strings.
\<close>

definition handle_login ::
  "env \<Rightarrow> request \<Rightarrow> string \<Rightarrow> string \<Rightarrow> string \<Rightarrow> world
     \<Rightarrow> (py_error + response) \<times> pydict" where
  "handle_login e req email password next_url w =
     (let user = get_user_by_email (PyStr email) w
      in case user of
           None \<Rightarrow> (Inr (RedirectResponse ''/login?error=1'' HTTP_303_SEE_OTHER), session req)
         | Some u \<Rightarrow>
             if u = [] then
               (Inr (RedirectResponse ''/login?error=1'' HTTP_303_SEE_OTHER), session req)
             else
               (case dict_index u ''password'' of
                  Inl err \<Rightarrow> (Inl err, session req)
                | Inr hashed \<Rightarrow>
                    (case pwd_verify e password hashed of
                       Inl err \<Rightarrow> (Inl err, session req)
                     | Inr is_password_correct \<Rightarrow>
                         if is_password_correct then
                           (case dict_index u ''email'' of
                              Inl err \<Rightarrow> (Inl err, session req)
                            | Inr user_email \<Rightarrow>
                                (let session1 = dict_set (session req) ''user_email'' user_email
                                 in case dict_index u ''name'' of
                                      Inl err \<Rightarrow> (Inl err, session1)
                                    | Inr user_name \<Rightarrow>
                                        (let session2 = dict_set session1 ''user_name'' user_name
                                         in if next_url \<noteq> [] \<and> startswith_slash next_url then
                                              (Inr (RedirectResponse next_url HTTP_303_SEE_OTHER),
                                               session2)
                                            else
                                              (Inr (RedirectResponse ''/add-project''
                                                      HTTP_303_SEE_OTHER), session2))))
                         else
                           (let error_redirect_url =
                                  (if next_url \<noteq> [] \<and> startswith_slash next_url
                                   then ''/login?error=1'' @ ''&next='' @ quote next_url ''/''
                                   else ''/login?error=1'')
                            in (Inr (RedirectResponse error_redirect_url HTTP_303_SEE_OTHER),
                                session req)))))"

definition handle_logout :: "request \<Rightarrow> response \<times> request" where
  "handle_logout req = (RedirectResponse ''/'' HTTP_303_SEE_OTHER, req\<lparr>session := []\<rparr>)"

section \<open>Uploads the file store accepts\<close>

text \<open>
  The uploads \<open>save_upload_file\<close> does not raise for (\<open>storable_iff\<close> below): no
  file, a file without a name, and a file whose generated name (32 digits and the
  extension) has no NUL byte and is not longer than the file system accepts.
\<close>

definition storable :: "env \<Rightarrow> upload_file option \<Rightarrow> bool" where
  "storable e file =
     (case file of
        None \<Rightarrow> True
      | Some f \<Rightarrow>
          (case filename f of
             None \<Rightarrow> True
           | Some fname \<Rightarrow>
               fname = [] \<or>
               (CHR 0x00 \<notin> set (snd (splitext fname)) \<and>
                32 + length (snd (splitext fname)) \<le> name_max e)))"

section \<open>A user document is complete\<close>

text \<open>
  The fields \<open>handle_login\<close> reads from a user document. Every user document that
  \<open>add_member\<close> inserts has them, and nothing else writes to the users collection.
\<close>

definition user_doc_complete :: "pydict \<Rightarrow> bool" where
  "user_doc_complete u =
     (map_of u ''name'' \<noteq> None \<and> map_of u ''email'' \<noteq> None \<and> map_of u ''password'' \<noteq> None)"

definition users_complete :: "world \<Rightarrow> bool" where
  "users_complete w = list_all user_doc_complete (users_collection w)"

section \<open>Example inputs\<close>

text \<open>
  A small environment (with a toy digest in place of bcrypt), an empty world and a few
  uploads, at which the theorems below are instantiated.
\<close>

definition example_env :: env where
  "example_env =
     \<lparr>uuid4_int = (\<lambda>n. 42),
      utcnow = (\<lambda>n. Datetime ''2025-01-21 09:00:00''),
      new_object_id = (\<lambda>n. of_nat n),
      pwd_hash = (\<lambda>p salt. case p of PyStr s \<Rightarrow> Inr (''$2b$'' @ rev s) | _ \<Rightarrow> Inl TypeError),
      pwd_verify = (\<lambda>s h. case h of PyNone \<Rightarrow> Inr False
                                | PyStr d \<Rightarrow> Inr (d = ''$2b$'' @ rev s)
                                | _ \<Rightarrow> Inl TypeError),
      name_max = 255\<rparr>"

definition empty_world :: world where
  "empty_world =
     \<lparr>projects_collection = [], members_collection = [], gallery_collection = [],
      blogs_collection = [], users_collection = [], disk = [], tick = 0\<rparr>"

definition example_admin :: pydict where
  "example_admin =
     [(''name'', PyStr ''Ann''), (''role'', PyStr ''Lead''), (''linkedin'', PyStr []),
      (''github'', PyStr []), (''email'', PyStr ''ann@example.org''),
      (''password'', PyStr ''secret''), (''isAdmin'', PyBool True)]"


definition example_member :: pydict where
  "example_member =
     [(''name'', PyStr ''Cy''), (''role'', PyStr ''Dev''), (''linkedin'', PyStr []),
      (''github'', PyStr []), (''email'', PyStr ''cy@example.org''),
      (''password'', PyStr ''pw''), (''isAdmin'', PyBool False)]"

definition example_project :: pydict where
  "example_project =
     [(''title'', PyStr ''Hive''), (''description'', PyStr ''A site''),
      (''techStack'', PyOther True (''['' @ [CHR 0x27] @ ''py'' @ [CHR 0x27] @ '']'')),
      (''github'', PyStr []), (''linkedin'', PyStr [])]"

text \<open>The world after Ann has been added as an administrator to the empty world.\<close>

definition ann_world :: world where
  "ann_world = snd (add_member example_env example_admin None None empty_world)"

definition example_photo :: upload_file where
  "example_photo = \<lparr>filename = Some ''me.tar.gz'', content = [1, 2, 3]\<rparr>"

definition unnamed_upload :: upload_file where
  "unnamed_upload = \<lparr>filename = Some [], content = []\<rparr>"

text \<open>An upload whose name has an extension of 300 letters, and one with a NUL byte in it.\<close>

definition overlong_upload :: upload_file where
  "overlong_upload = \<lparr>filename = Some (''x.'' @ replicate 300 CHR ''e''), content = [1, 2, 3]\<rparr>"

definition nul_upload :: upload_file where
  "nul_upload = \<lparr>filename = Some (''x.p'' @ [CHR 0x00] @ ''g''), content = [1, 2, 3]\<rparr>"

text \<open>
  Three requests for a protected page: without a session, with Ann's session, and
  with the session of a user the store does not know.
\<close>

definition anonymous_request :: request where
  "anonymous_request = \<lparr>session = [], url = ''http://h/add-member?x=1''\<rparr>"

definition ann_request :: request where
  "ann_request =
     \<lparr>session = [(''user_email'', PyStr ''ann@example.org''), (''user_name'', PyStr ''Ann'')],
      url = ''http://h/add-member?x=1''\<rparr>"

definition stale_request :: request where
  "stale_request =
     \<lparr>session = [(''user_email'', PyStr ''zed@example.org''), (''user_name'', PyStr ''Zed'')],
      url = ''http://h/add-member?x=1''\<rparr>"

section \<open>Hexadecimal tokens, extensions and paths\<close>

lemma length_hex: "length (hex n x) = n"
  by (induction n arbitrary: x) auto

lemma hexdigit_in: "hexdigit d \<in> set ''0123456789abcdef''"
proof -
  have "d mod 16 < length ''0123456789abcdef''" by simp
  then show ?thesis unfolding hexdigit_def by (rule nth_mem)
qed

lemma set_hex: "set (hex n x) \<subseteq> set ''0123456789abcdef''"
  using hexdigit_in by (induction n arbitrary: x) auto

lemma hex_not_slash: 
  assumes "0 < n" shows "take 1 (hex n x @ s) \<noteq> ''/''"
proof -
  from assms obtain c cs where h: "hex n x = c # cs"
    by (cases "hex n x") (use length_hex[of n x] in auto)
  then have "c \<in> set (hex n x)" by simp
  with set_hex[of n x] have "c \<in> set ''0123456789abcdef''" by blast
  then have "c \<noteq> CHR ''/''" by auto
  with h show ?thesis by simp
qed

lemma path_join_upload: "0 < n \<Longrightarrow> path_join UPLOAD_DIR (hex n x @ s) = ''uploads/'' @ hex n x @ s"
  using hex_not_slash[of n x s] by (simp add: path_join_def UPLOAD_DIR_def)

lemma splitext_loop_append: "splitext_loop p i d = (a, b) \<Longrightarrow> a @ b = p"
  by (induction p i d rule: splitext_loop.induct) (auto split: if_splits simp del: splitext_loop.simps simp: splitext_loop.simps[of p i d for p i d])

lemma splitext_append: "fst (splitext p) @ snd (splitext p) = p"
  using splitext_loop_append[of p "rfind p CHR ''/'' + 1" "rfind p CHR ''.''"]
  by (cases "splitext_loop p (rfind p CHR ''/'' + 1) (rfind p CHR ''.'')") (simp add: splitext_def Let_def)

lemma rfind_range: "-1 \<le> rfind p c \<and> rfind p c < int (length p)"
  by (induction p) (auto simp: Let_def)

lemma rfind_neg: "rfind p c < 0 \<longleftrightarrow> c \<notin> set p"
  by (induction p) (auto simp: Let_def)

lemma rfind_drop: "0 \<le> rfind p c \<Longrightarrow> \<exists>r. drop (nat (rfind p c)) p = c # r \<and> c \<notin> set r"
proof (induction p)
  case Nil then show ?case by simp
next
  case (Cons x xs)
  show ?case
  proof (cases "0 \<le> rfind xs c")
    case True
    with Cons.IH obtain r where "drop (nat (rfind xs c)) xs = c # r" "c \<notin> set r" by blast
    with True show ?thesis by (auto simp: Let_def nat_add_distrib)
  next
    case False
    then have "c \<notin> set xs" using rfind_neg[of xs c] by simp
    with False Cons.prems show ?thesis by (auto simp: Let_def split: if_splits)
  qed
qed

lemma rfind_after: "rfind p c < i \<Longrightarrow> 0 \<le> i \<Longrightarrow> c \<notin> set (drop (nat i) p)"
proof (induction p arbitrary: i)
  case Nil then show ?case by simp
next
  case (Cons x xs)
  show ?case
  proof (cases "i = 0")
    case True
    with Cons.prems have "rfind (x # xs) c < 0" by simp
    then have "c \<notin> set (x # xs)" using rfind_neg by blast
    with True show ?thesis by simp
  next
    case False
    with Cons.prems have ipos: "0 < i" by simp
    then have d: "drop (nat i) (x # xs) = drop (nat (i - 1)) xs"
      by (cases "nat i") (auto simp: nat_diff_distrib)
    have "rfind xs c < i - 1"
      using Cons.prems(1) ipos rfind_range[of xs c] by (auto simp: Let_def split: if_splits)
    with Cons.IH[of "i - 1"] ipos have "c \<notin> set (drop (nat (i - 1)) xs)" by simp
    with d show ?thesis by simp
  qed
qed

lemma splitext_loop_snd: "splitext_loop p i d = (a, b) \<Longrightarrow> b = [] \<or> b = drop (nat d) p"
  by (induction p i d rule: splitext_loop.induct) (auto split: if_splits simp del: splitext_loop.simps simp: splitext_loop.simps[of p i d for p i d])

lemma splitext_ext:
  "snd (splitext p) = [] \<or>
   (\<exists>r. snd (splitext p) = CHR ''.'' # r \<and> CHR ''.'' \<notin> set r \<and> CHR ''/'' \<notin> set r)"
proof (cases "rfind p CHR ''.'' > rfind p CHR ''/''")
  case False
  then show ?thesis by (simp add: splitext_def Let_def)
next
  case True
  let ?d = "rfind p CHR ''.''" and ?s = "rfind p CHR ''/''"
  obtain a b where ab: "splitext_loop p (?s + 1) ?d = (a, b)" by fastforce
  with True have sb: "snd (splitext p) = b" by (simp add: splitext_def Let_def)
  from True rfind_range[of p "CHR ''/''"] have d0: "0 \<le> ?d" by simp
  from rfind_drop[OF d0] obtain r where r: "drop (nat ?d) p = CHR ''.'' # r" "CHR ''.'' \<notin> set r"
    by blast
  from rfind_after[OF True d0] r(1) have "CHR ''/'' \<notin> set r" by simp
  with splitext_loop_snd[OF ab] r sb show ?thesis by auto
qed

section \<open>Documents and the store\<close>

lemma serialize_cursor_map: "serialize_cursor result cursor = result @ map mongo_id_serializer cursor"
  by (induction cursor arbitrary: result) auto

lemma serializer_no_internal_id: "map_of (mongo_id_serializer doc) ''_id'' = None"
  by (simp add: mongo_id_serializer_def dict_del_def dict_set_def delete_conv' split: option.splits)

lemma serializer_public_id:
  "map_of doc ''_id'' = Some i \<Longrightarrow> map_of (mongo_id_serializer doc) ''id'' = Some (PyStr (py_str i))"
  by (simp add: mongo_id_serializer_def dict_del_def dict_set_def delete_conv' update_conv')

lemma serializer_other_fields:
  "k \<noteq> ''id'' \<Longrightarrow> k \<noteq> ''_id'' \<Longrightarrow> map_of (mongo_id_serializer doc) k = map_of doc k"
  by (simp add: mongo_id_serializer_def dict_del_def dict_set_def delete_conv' update_conv'
      split: option.splits)

lemma map_of_Some_nonempty: "map_of d k = Some v \<Longrightarrow> d \<noteq> []"
  by auto

lemma find_one_Some: "find_one coll k v = Some d \<Longrightarrow> d \<in> set coll \<and> matches d k v"
  by (auto simp: find_one_def find_Some_iff)

lemma matches_truthy: "truthy v \<Longrightarrow> matches d k v \<Longrightarrow> map_of d k = Some v"
  by (auto simp: matches_def split: option.splits)

lemma get_user_by_email_Some:
  assumes "get_user_by_email email w = Some u" "truthy email"
  shows "u \<noteq> [] \<and> map_of u ''email'' = Some email \<and>
         (\<exists>d \<in> set (users_collection w). u = mongo_id_serializer d)"
proof -
  from assms(1) obtain d where d: "find_one (users_collection w) ''email'' email = Some d"
    and u: "u = mongo_id_serializer d"
    by (auto simp: get_user_by_email_def Let_def dict_truthy_def split: if_splits option.splits)
  from find_one_Some[OF d] assms(2) have m: "map_of d ''email'' = Some email" and "d \<in> set (users_collection w)"
    by (auto dest: matches_truthy)
  from m have "map_of u ''email'' = Some email"
    unfolding u by (simp add: serializer_other_fields)
  then show ?thesis using u \<open>d \<in> set (users_collection w)\<close> by (auto dest: map_of_Some_nonempty)
qed


lemma dict_get_after_pop: "k \<noteq> k' \<Longrightarrow> dict_get (snd (dict_pop d k' dflt)) k = dict_get d k"
  by (simp add: dict_pop_def dict_get_def delete_conv' split: option.splits)

lemma insert_one_result:
  "insert_one e t coll doc = Inl err \<Longrightarrow>
     err = DuplicateKeyError \<and> map_of doc ''_id'' \<noteq> None"
  "insert_one e t coll doc = Inr (coll', t') \<Longrightarrow>
     \<exists>stored. coll' = coll @ [stored] \<and> map_of stored ''_id'' \<noteq> None \<and>
       (\<forall>k. k \<noteq> ''_id'' \<longrightarrow> map_of stored k = map_of doc k)"
  by (auto simp: insert_one_def dict_set_def update_conv' split: option.splits if_splits)

lemma insert_one_fresh:
  "map_of doc ''_id'' = None \<Longrightarrow>
   insert_one e t coll doc = Inr (coll @ [dict_set doc ''_id'' (PyObjectId (new_object_id e t))], Suc t)"
  by (simp add: insert_one_def)

section \<open>Opening and saving an upload\<close>

lemma rfind_last: "c \<notin> set b \<Longrightarrow> rfind (a @ c # b) c = int (length a)"
proof (induction a)
  case Nil
  have "rfind b c < 0" using Nil rfind_neg[of b c] by simp
  then show ?case by (simp add: Let_def)
next
  case (Cons x a)
  then show ?case by (simp add: Let_def)
qed

lemma basename_upload: "CHR ''/'' \<notin> set name \<Longrightarrow> basename (''uploads/'' @ name) = name"
  using rfind_last[of "CHR ''/''" name "''uploads''"] by (simp add: basename_def)

lemma hex_no_slash_nul: "CHR ''/'' \<notin> set (hex n x) \<and> CHR 0x00 \<notin> set (hex n x)"
  using set_hex[of n x] by auto

lemma ext_no_slash: "CHR ''/'' \<notin> set (snd (splitext fname))"
  using splitext_ext[of fname] by auto

lemma open_wb_error_upload:
  "open_wb_error e (''uploads/'' @ hex 32 x @ snd (splitext fname)) =
     (if CHR 0x00 \<in> set (snd (splitext fname)) then Some ValueError
      else if name_max e < 32 + length (snd (splitext fname)) then Some OSError
      else None)"
proof -
  have "CHR ''/'' \<notin> set (hex 32 x @ snd (splitext fname))"
    using hex_no_slash_nul[of 32 x] ext_no_slash[of fname] by simp
  then have b: "basename (''uploads/'' @ hex 32 x @ snd (splitext fname)) = hex 32 x @ snd (splitext fname)"
    by (rule basename_upload)
  have n: "CHR 0x00 \<in> set (''uploads/'' @ hex 32 x @ snd (splitext fname)) \<longleftrightarrow>
        CHR 0x00 \<in> set (snd (splitext fname))"
    using hex_no_slash_nul[of 32 x] by auto
  show ?thesis
    unfolding open_wb_error_def b n by (simp add: length_hex)
qed

lemma save_upload_file_no_file:
  "file = None \<or> (\<exists>f. file = Some f \<and> (filename f = None \<or> filename f = Some [])) \<Longrightarrow>
   save_upload_file e file w = (Inr PyNone, w)"
  by (auto simp: save_upload_file_def)

lemma save_upload_file_named:
  assumes "filename f = Some fname" "fname \<noteq> []"
  shows "save_upload_file e (Some f) w =
     (let token = hex 32 (unat (uuid4_int e (tick w)));
          ext = snd (splitext fname)
      in if CHR 0x00 \<in> set ext then (Inl ValueError, w\<lparr>tick := Suc (tick w)\<rparr>)
         else if name_max e < 32 + length ext then (Inl OSError, w\<lparr>tick := Suc (tick w)\<rparr>)
         else (Inr (PyStr (''/uploads/'' @ token @ ext)),
               w\<lparr>tick := Suc (tick w),
                 disk := AList.update (''uploads/'' @ token @ ext) (content f) (disk w)\<rparr>))"
proof -
  define p where "p = ''uploads/'' @ hex 32 (unat (uuid4_int e (tick w))) @ snd (splitext fname)"
  have pj: "path_join UPLOAD_DIR (hex 32 (unat (uuid4_int e (tick w))) @ snd (splitext fname)) = p"
    unfolding p_def by (rule path_join_upload) simp
  have s: "save_upload_file e (Some f) w =
      (case open_wb_error e p of
         Some err \<Rightarrow> (Inl err, w\<lparr>tick := Suc (tick w)\<rparr>)
       | None \<Rightarrow>
           (Inr (PyStr (''/'' @ UPLOAD_DIR @ ''/'' @
                   hex 32 (unat (uuid4_int e (tick w))) @ snd (splitext fname))),
            w\<lparr>tick := Suc (tick w), disk := AList.update p (content f) (disk w)\<rparr>))"
    using assms by (simp add: save_upload_file_def Let_def pj split: option.splits)
  have o: "open_wb_error e p =
     (if CHR 0x00 \<in> set (snd (splitext fname)) then Some ValueError
      else if name_max e < 32 + length (snd (splitext fname)) then Some OSError
      else None)"
    unfolding p_def by (rule open_wb_error_upload)
  show ?thesis
    unfolding s o by (simp add: Let_def UPLOAD_DIR_def p_def)
qed

lemma storable_named:
  "filename f = Some fname \<Longrightarrow> fname \<noteq> [] \<Longrightarrow>
   storable e (Some f) \<longleftrightarrow>
     CHR 0x00 \<notin> set (snd (splitext fname)) \<and> 32 + length (snd (splitext fname)) \<le> name_max e"
  by (simp add: storable_def)

lemma storable_no_file:
  "file = None \<or> (\<exists>f. file = Some f \<and> (filename f = None \<or> filename f = Some [])) \<Longrightarrow>
   storable e file"
  by (auto simp: storable_def)

text \<open>An upload is storable exactly when saving it does not raise.\<close>

lemma save_upload_file_storable:
  "storable e file \<Longrightarrow> \<exists>image_url. fst (save_upload_file e file w) = Inr image_url"
proof (cases "file = None \<or> (\<exists>f. file = Some f \<and> (filename f = None \<or> filename f = Some []))")
  case True
  then show ?thesis by (simp add: save_upload_file_no_file)
next
  case False
  then obtain f fname where f: "file = Some f" "filename f = Some fname" "fname \<noteq> []"
    by (cases "file") auto
  assume "storable e file"
  with f show ?thesis
    by (simp add: storable_named save_upload_file_named Let_def)
qed

lemma save_upload_file_not_storable:
  "\<not> storable e file \<Longrightarrow>
   \<exists>err. save_upload_file e file w = (Inl err, w\<lparr>tick := Suc (tick w)\<rparr>)"
proof (cases "file = None \<or> (\<exists>f. file = Some f \<and> (filename f = None \<or> filename f = Some []))")
  case True
  assume "\<not> storable e file"
  with storable_no_file[OF True] show ?thesis by simp
next
  case False
  then obtain f fname where f: "file = Some f" "filename f = Some fname" "fname \<noteq> []"
    by (cases "file") auto
  assume "\<not> storable e file"
  with f show ?thesis
    by (auto simp: storable_named save_upload_file_named Let_def)
qed

lemma storable_iff:
  "storable e file \<longleftrightarrow> (\<exists>v. fst (save_upload_file e file w) = Inr v)"
  using save_upload_file_storable[of e "file" w] save_upload_file_not_storable[of e "file" w]
  by (cases "storable e file") auto

lemma save_upload_file_collections:
  "projects_collection (snd (save_upload_file e f w)) = projects_collection w"
  "members_collection (snd (save_upload_file e f w)) = members_collection w"
  "gallery_collection (snd (save_upload_file e f w)) = gallery_collection w"
  "blogs_collection (snd (save_upload_file e f w)) = blogs_collection w"
  "users_collection (snd (save_upload_file e f w)) = users_collection w"
  by (simp_all add: save_upload_file_def Let_def split: option.splits)

lemma save_upload_file_raises_disk:
  "save_upload_file e file w = (Inl err, w') \<Longrightarrow> disk w' = disk w"
  by (auto simp: save_upload_file_def Let_def split: option.splits if_splits)

lemma save_upload_file_url:
  "save_upload_file e file w = (Inr image_url, w') \<Longrightarrow>
   image_url = PyNone \<or> (\<exists>name. image_url = PyStr (''/uploads/'' @ name))"
  by (auto simp: save_upload_file_def Let_def UPLOAD_DIR_def split: option.splits if_splits)



lemma storable_hasher: "storable (e\<lparr>pwd_hash := h\<rparr>) file = storable e file"
  by (simp add: storable_def split: option.splits)

lemma attach_file_collections:
  "projects_collection (snd (attach_file e key f dw)) = projects_collection (snd dw)"
  "members_collection (snd (attach_file e key f dw)) = members_collection (snd dw)"
  "gallery_collection (snd (attach_file e key f dw)) = gallery_collection (snd dw)"
  "blogs_collection (snd (attach_file e key f dw)) = blogs_collection (snd dw)"
  "users_collection (snd (attach_file e key f dw)) = users_collection (snd dw)"
  using save_upload_file_collections[of e f "snd dw"]
  by (auto simp: attach_file_def split: option.splits prod.splits sum.splits)

lemma attach_file_saved:
  assumes "attach_file e key f dw = (Inr D, W)"
  shows "k \<noteq> key \<Longrightarrow> map_of D k = map_of (fst dw) k"
    and "fst ` set D \<subseteq> insert key (fst ` set (fst dw))"
    and "f = None \<Longrightarrow> map_of D key = map_of (fst dw) key"
    and "f \<noteq> None \<Longrightarrow> \<exists>image_url. fst (save_upload_file e f (snd dw)) = Inr image_url \<and>
                        map_of D key = Some image_url"
proof -
  from assms have D: "D = fst dw \<or> (\<exists>image_url. D = AList.update key image_url (fst dw))"
    by (auto simp: attach_file_def dict_set_def split: option.splits prod.splits sum.splits)
  then show "fst ` set D \<subseteq> insert key (fst ` set (fst dw))"
    using dom_update[of key _ "fst dw"] by auto
  show "k \<noteq> key \<Longrightarrow> map_of D k = map_of (fst dw) k"
    using D by (auto simp: update_conv')
  show "f = None \<Longrightarrow> map_of D key = map_of (fst dw) key"
    using assms by (simp add: attach_file_def)
  show "f \<noteq> None \<Longrightarrow> \<exists>image_url. fst (save_upload_file e f (snd dw)) = Inr image_url \<and>
                        map_of D key = Some image_url"
    using assms
    by (auto simp: attach_file_def dict_set_def update_conv'
        split: option.splits prod.splits sum.splits)
qed

lemma attach_file_storable:
  assumes "storable e f"
  shows "\<exists>D W. attach_file e key f dw = (Inr D, W)"
proof -
  from save_upload_file_storable[OF assms, of "snd dw"]
  obtain image_url where "fst (save_upload_file e f (snd dw)) = Inr image_url" by blast
  then show ?thesis
    by (cases "save_upload_file e f (snd dw)") (auto simp: attach_file_def split: option.splits)
qed

lemma attach_file_not_storable:
  assumes "\<not> storable e f"
  shows "\<exists>err W. attach_file e key f dw = (Inl err, W)"
proof -
  from assms have "f \<noteq> None" by (cases "f") (simp_all add: storable_def)
  moreover from save_upload_file_not_storable[OF assms, of "snd dw"]
  obtain err where "save_upload_file e f (snd dw) = (Inl err, (snd dw)\<lparr>tick := Suc (tick (snd dw))\<rparr>)"
    by blast
  ultimately show ?thesis
    by (auto simp: attach_file_def split: option.splits)
qed

lemma attach_file_Inr_storable:
  "attach_file e key f dw = (Inr D, W) \<Longrightarrow> storable e f"
  using attach_file_not_storable[of e f key dw] by auto


section \<open>What the add operations do\<close>

lemma add_project_unfold:
  assumes "save_upload_file e image_file w = (Inr image_url, w1)"
    and "doc = dict_set (if truthy image_url then dict_set project_data ''imageUrl'' image_url
                         else project_data) ''createdAt'' (PyDatetime (utcnow e (tick w1)))"
  shows "add_project e project_data image_file w =
     (case insert_one e (Suc (tick w1)) (projects_collection w) doc of
        Inl err \<Rightarrow> (Inl err, w1\<lparr>tick := Suc (tick w1)\<rparr>)
      | Inr (coll, t) \<Rightarrow>
          (Inr (result_dict ''success'' ''Project added successfully''),
           w1\<lparr>projects_collection := coll, tick := t\<rparr>))"
proof -
  have "projects_collection w1 = projects_collection w"
    using save_upload_file_collections(1)[of e image_file w] assms(1) by simp
  then show ?thesis
    unfolding add_project_def assms(2)
    by (simp add: assms(1) Let_def split: sum.splits)
qed

lemma add_gallery_item_unfold:
  assumes "save_upload_file e image_file w = (Inr image_url, w1)"
    and "doc = dict_set (if truthy image_url then dict_set gallery_data ''imageUrl'' image_url
                         else gallery_data) ''createdAt'' (PyDatetime (utcnow e (tick w1)))"
  shows "add_gallery_item e gallery_data image_file w =
     (case insert_one e (Suc (tick w1)) (gallery_collection w) doc of
        Inl err \<Rightarrow> (Inl err, w1\<lparr>tick := Suc (tick w1)\<rparr>)
      | Inr (coll, t) \<Rightarrow>
          (Inr (result_dict ''success'' ''Gallery item added successfully''),
           w1\<lparr>gallery_collection := coll, tick := t\<rparr>))"
proof -
  have "gallery_collection w1 = gallery_collection w"
    using save_upload_file_collections(3)[of e image_file w] assms(1) by simp
  then show ?thesis
    unfolding add_gallery_item_def assms(2)
    by (simp add: assms(1) Let_def split: sum.splits)
qed

lemma add_blog_unfold:
  assumes "save_upload_file e image_file w = (Inr image_url, w1)"
    and "doc = dict_set (if truthy image_url then dict_set blog_data ''imageUrl'' image_url
                         else blog_data) ''createdAt'' (PyDatetime (utcnow e (tick w1)))"
  shows "add_blog e blog_data image_file w =
     (case insert_one e (Suc (tick w1)) (blogs_collection w) doc of
        Inl err \<Rightarrow> (Inl err, w1\<lparr>tick := Suc (tick w1)\<rparr>)
      | Inr (coll, t) \<Rightarrow>
          (Inr (result_dict ''success'' ''Blog post added successfully''),
           w1\<lparr>blogs_collection := coll, tick := t\<rparr>))"
proof -
  have "blogs_collection w1 = blogs_collection w"
    using save_upload_file_collections(4)[of e image_file w] assms(1) by simp
  then show ?thesis
    unfolding add_blog_def assms(2)
    by (simp add: assms(1) Let_def split: sum.splits)
qed

text \<open>When the save raises, the add raises the same error and inserts nothing.\<close>

lemma add_raises:
  assumes "save_upload_file e image_file w = (Inl err, w1)"
  shows "add_project e project_data image_file w = (Inl err, w1)"
    and "add_gallery_item e gallery_data image_file w = (Inl err, w1)"
    and "add_blog e blog_data image_file w = (Inl err, w1)"
  by (simp_all add: add_project_def add_gallery_item_def add_blog_def assms)

text \<open>What a successful add of a document with an image leaves in its collection.\<close>

lemma image_doc_stored:
  assumes ins: "insert_one e t coll
           (dict_set (if truthy image_url then dict_set data ''imageUrl'' image_url else data)
              ''createdAt'' created) = Inr (coll', t')"
  shows "\<exists>stored. coll' = coll @ [stored] \<and> map_of stored ''_id'' \<noteq> None \<and>
           map_of stored ''imageUrl'' = (if truthy image_url then Some image_url
                                         else map_of data ''imageUrl'') \<and>
           map_of stored ''createdAt'' = Some created"
proof -
  from insert_one_result(2)[OF ins] obtain stored where
    s: "coll' = coll @ [stored]" "map_of stored ''_id'' \<noteq> None"
    and k: "\<And>k. k \<noteq> ''_id'' \<Longrightarrow> map_of stored k =
        map_of (dict_set (if truthy image_url then dict_set data ''imageUrl'' image_url else data)
              ''createdAt'' created) k"
    by blast
  have "map_of stored ''imageUrl'' = (if truthy image_url then Some image_url else map_of data ''imageUrl'')"
    by (simp add: k dict_set_def update_conv')
  moreover have "map_of stored ''createdAt'' = Some created"
    by (simp add: k dict_set_def update_conv')
  ultimately show ?thesis using s by blast
qed

lemma add_project_stored:
  assumes "fst (add_project e project_data image_file w) = Inr r"
  shows "\<exists>stored image_url.
           fst (save_upload_file e image_file w) = Inr image_url \<and>
           projects_collection (snd (add_project e project_data image_file w))
                     = projects_collection w @ [stored] \<and>
           map_of stored ''_id'' \<noteq> None \<and>
           map_of stored ''imageUrl'' =
             (if truthy image_url then Some image_url else map_of project_data ''imageUrl'')"
proof -
  obtain sv w1 where sv0: "save_upload_file e image_file w = (sv, w1)"
    by fastforce
  with assms obtain image_url where sv: "save_upload_file e image_file w = (Inr image_url, w1)"
    by (cases sv) (auto simp: add_raises)
  note u = add_project_unfold[OF sv refl, of project_data]
  from assms obtain coll t where ins: "insert_one e (Suc (tick w1)) (projects_collection w)
       (dict_set (if truthy image_url then dict_set project_data ''imageUrl'' image_url
                         else project_data) ''createdAt'' (PyDatetime (utcnow e (tick w1)))) = Inr (coll, t)"
    unfolding u by (auto split: sum.splits)
  from image_doc_stored[OF ins] show ?thesis
    unfolding u by (auto simp: ins sv)
qed

lemma add_gallery_item_stored:
  assumes "fst (add_gallery_item e gallery_data image_file w) = Inr r"
  shows "\<exists>stored image_url.
           fst (save_upload_file e image_file w) = Inr image_url \<and>
           gallery_collection (snd (add_gallery_item e gallery_data image_file w))
                     = gallery_collection w @ [stored] \<and>
           map_of stored ''_id'' \<noteq> None \<and>
           map_of stored ''imageUrl'' =
             (if truthy image_url then Some image_url else map_of gallery_data ''imageUrl'')"
proof -
  obtain sv w1 where sv0: "save_upload_file e image_file w = (sv, w1)"
    by fastforce
  with assms obtain image_url where sv: "save_upload_file e image_file w = (Inr image_url, w1)"
    by (cases sv) (auto simp: add_raises)
  note u = add_gallery_item_unfold[OF sv refl, of gallery_data]
  from assms obtain coll t where ins: "insert_one e (Suc (tick w1)) (gallery_collection w)
       (dict_set (if truthy image_url then dict_set gallery_data ''imageUrl'' image_url
                         else gallery_data) ''createdAt'' (PyDatetime (utcnow e (tick w1)))) = Inr (coll, t)"
    unfolding u by (auto split: sum.splits)
  from image_doc_stored[OF ins] show ?thesis
    unfolding u by (auto simp: ins sv)
qed

lemma add_blog_stored:
  assumes "fst (add_blog e blog_data image_file w) = Inr r"
  shows "\<exists>stored image_url.
           fst (save_upload_file e image_file w) = Inr image_url \<and>
           blogs_collection (snd (add_blog e blog_data image_file w))
                     = blogs_collection w @ [stored] \<and>
           map_of stored ''_id'' \<noteq> None \<and>
           map_of stored ''imageUrl'' =
             (if truthy image_url then Some image_url else map_of blog_data ''imageUrl'')"
proof -
  obtain sv w1 where sv0: "save_upload_file e image_file w = (sv, w1)"
    by fastforce
  with assms obtain image_url where sv: "save_upload_file e image_file w = (Inr image_url, w1)"
    by (cases sv) (auto simp: add_raises)
  note u = add_blog_unfold[OF sv refl, of blog_data]
  from assms obtain coll t where ins: "insert_one e (Suc (tick w1)) (blogs_collection w)
       (dict_set (if truthy image_url then dict_set blog_data ''imageUrl'' image_url
                         else blog_data) ''createdAt'' (PyDatetime (utcnow e (tick w1)))) = Inr (coll, t)"
    unfolding u by (auto split: sum.splits)
  from image_doc_stored[OF ins] show ?thesis
    unfolding u by (auto simp: ins sv)
qed

text \<open>Data without an identifier of its own, with an upload the file store accepts, is always added.\<close>

lemma add_project_succeeds:
  assumes "map_of project_data ''_id'' = None" "storable e image_file"
  shows "fst (add_project e project_data image_file w)
           = Inr (result_dict ''success'' ''Project added successfully'')"
proof -
  from save_upload_file_storable[OF assms(2), of w]
  obtain image_url w1 where sv: "save_upload_file e image_file w = (Inr image_url, w1)"
    by (cases "save_upload_file e image_file w") auto
  have "map_of (dict_set (if truthy image_url then dict_set project_data ''imageUrl'' image_url
                         else project_data) ''createdAt'' (PyDatetime (utcnow e (tick w1)))) ''_id'' = None"
    using assms(1) by (simp add: dict_set_def update_conv')
  then show ?thesis
    unfolding add_project_unfold[OF sv refl] by (simp add: insert_one_fresh)
qed

lemma add_gallery_item_succeeds:
  assumes "map_of gallery_data ''_id'' = None" "storable e image_file"
  shows "fst (add_gallery_item e gallery_data image_file w)
           = Inr (result_dict ''success'' ''Gallery item added successfully'')"
proof -
  from save_upload_file_storable[OF assms(2), of w]
  obtain image_url w1 where sv: "save_upload_file e image_file w = (Inr image_url, w1)"
    by (cases "save_upload_file e image_file w") auto
  have "map_of (dict_set (if truthy image_url then dict_set gallery_data ''imageUrl'' image_url
                         else gallery_data) ''createdAt'' (PyDatetime (utcnow e (tick w1)))) ''_id'' = None"
    using assms(1) by (simp add: dict_set_def update_conv')
  then show ?thesis
    unfolding add_gallery_item_unfold[OF sv refl] by (simp add: insert_one_fresh)
qed

lemma add_blog_succeeds:
  assumes "map_of blog_data ''_id'' = None" "storable e image_file"
  shows "fst (add_blog e blog_data image_file w)
           = Inr (result_dict ''success'' ''Blog post added successfully'')"
proof -
  from save_upload_file_storable[OF assms(2), of w]
  obtain image_url w1 where sv: "save_upload_file e image_file w = (Inr image_url, w1)"
    by (cases "save_upload_file e image_file w") auto
  have "map_of (dict_set (if truthy image_url then dict_set blog_data ''imageUrl'' image_url
                         else blog_data) ''createdAt'' (PyDatetime (utcnow e (tick w1)))) ''_id'' = None"
    using assms(1) by (simp add: dict_set_def update_conv')
  then show ?thesis
    unfolding add_blog_unfold[OF sv refl] by (simp add: insert_one_fresh)
qed



lemma add_member_unfold:
  assumes photo: "attach_file e ''photoUrl'' photo_file
                ([(''name'', dict_get member_data0 ''name''),
                  (''role'', dict_get member_data0 ''role''),
                  (''linkedin'', dict_get member_data0 ''linkedin''),
                  (''github'', dict_get member_data0 ''github''),
                  (''email'', dict_get member_data0 ''email''),
                  (''createdAt'', PyDatetime (utcnow e (tick w0)))],
                 w0\<lparr>tick := Suc (tick w0)\<rparr>) = (Inr D1, W1)"
    and resume: "attach_file e ''resumeUrl'' resume_file (D1, W1) = (Inr D, W)"
    and w4: "w4 = W\<lparr>members_collection :=
                      members_collection W @ [dict_set D ''_id'' (PyObjectId (new_object_id e (tick W)))],
                    tick := Suc (tick W)\<rparr>"
    and is_admin: "is_admin = fst (dict_pop member_data0 ''isAdmin'' (PyBool False))"
    and name: "name = dict_get member_data0 ''name''"
    and email: "email = dict_get member_data0 ''email''"
    and password: "password = dict_get member_data0 ''password''"
  shows "add_member e member_data0 photo_file resume_file w0 =
     (if truthy is_admin then
        (if \<not> (truthy name \<and> truthy email \<and> truthy password) then
           (Inr (result_dict ''error'' ''Admin user requires a name, email, and password.''), w4)
         else if dict_truthy (get_user_by_email email w4) then
           (Inr (result_dict ''error'' ''A user with this email already exists.''), w4)
         else
           (case pwd_hash e password (tick w4) of
              Inl err \<Rightarrow> (Inl err, w4)
            | Inr hashed_password \<Rightarrow>
                (Inr (result_dict ''success'' ''Admin member and user created successfully''),
                 w4\<lparr>users_collection := users_collection w4 @
                       [[(''name'', name), (''email'', email),
                         (''password'', PyStr hashed_password),
                         (''createdAt'', PyDatetime (utcnow e (Suc (tick w4)))),
                         (''_id'', PyObjectId (new_object_id e (Suc (Suc (tick w4)))))]],
                     tick := Suc (Suc (Suc (tick w4)))\<rparr>)))
      else (Inr (result_dict ''success'' ''Member added successfully''), w4))"
proof -
  have pop: "dict_get (snd (dict_pop member_data0 ''isAdmin'' (PyBool False))) k = dict_get member_data0 k"
    if "k \<noteq> ''isAdmin''" for k
    using that by (rule dict_get_after_pop)
  have "map_of D1 ''_id'' = None"
    using attach_file_saved(1)[OF photo, of "''_id''"] by simp
  then have noid: "map_of D ''_id'' = None"
    using attach_file_saved(1)[OF resume, of "''_id''"] by simp
  show ?thesis
    unfolding add_member_def w4 is_admin name email password
    by (simp add: split_beta Let_def pop photo resume insert_one_def noid dict_set_def
        split: sum.splits)
qed

text \<open>
  When saving the photo or the resume raises, \<open>add_member\<close> raises the same error
  before it inserts anything.
\<close>

lemma add_member_raises:
  assumes "\<not> (storable e photo_file \<and> storable e resume_file)"
  shows "\<exists>err. fst (add_member e member_data photo_file resume_file w) = Inl err \<and>
           members_collection (snd (add_member e member_data photo_file resume_file w))
             = members_collection w \<and>
           users_collection (snd (add_member e member_data photo_file resume_file w))
             = users_collection w"
proof -
  have pop: "dict_get (snd (dict_pop member_data ''isAdmin'' (PyBool False))) k = dict_get member_data k"
    if "k \<noteq> ''isAdmin''" for k
    using that by (rule dict_get_after_pop)
  let ?d0 = "[(''name'', dict_get member_data ''name''),
                  (''role'', dict_get member_data ''role''),
                  (''linkedin'', dict_get member_data ''linkedin''),
                  (''github'', dict_get member_data ''github''),
                  (''email'', dict_get member_data ''email''),
                  (''createdAt'', PyDatetime (utcnow e (tick w)))]"
  let ?w1 = "w\<lparr>tick := Suc (tick w)\<rparr>"
  obtain r1 W1 where a1: "attach_file e ''photoUrl'' photo_file (?d0, ?w1) = (r1, W1)"
    by fastforce
  have c1: "members_collection W1 = members_collection w" "users_collection W1 = users_collection w"
    using attach_file_collections(2,5)[of e "''photoUrl''" photo_file "(?d0, ?w1)"] a1 by simp_all
  show ?thesis
  proof (cases r1)
    case (Inl err)
    then have "add_member e member_data photo_file resume_file w = (Inl err, W1)"
      unfolding add_member_def by (simp add: split_beta Let_def pop a1)
    with c1 show ?thesis by simp
  next
    case (Inr D1)
    with a1 have "storable e photo_file" by (auto dest: attach_file_Inr_storable)
    with assms have "\<not> storable e resume_file" by simp
    from attach_file_not_storable[OF this, of "''resumeUrl''" "(D1, W1)"]
    obtain err W2 where a2: "attach_file e ''resumeUrl'' resume_file (D1, W1) = (Inl err, W2)"
      by blast
    have c2: "members_collection W2 = members_collection w" "users_collection W2 = users_collection w"
      using attach_file_collections(2,5)[of e "''resumeUrl''" resume_file "(D1, W1)"] a2 c1
      by simp_all
    have "add_member e member_data photo_file resume_file w = (Inl err, W2)"
      unfolding add_member_def using Inr by (simp add: split_beta Let_def pop a1 a2)
    with c2 show ?thesis by simp
  qed
qed

text \<open>The member document and the world \<open>add_member\<close> has built when it inserts.\<close>

lemma member_doc_fields:
  assumes photo: "attach_file e ''photoUrl'' photo_file
                ([(''name'', dict_get member_data ''name''),
                  (''role'', dict_get member_data ''role''),
                  (''linkedin'', dict_get member_data ''linkedin''),
                  (''github'', dict_get member_data ''github''),
                  (''email'', dict_get member_data ''email''),
                  (''createdAt'', PyDatetime (utcnow e (tick w)))],
                 w\<lparr>tick := Suc (tick w)\<rparr>) = (Inr D1, W1)"
    and resume: "attach_file e ''resumeUrl'' resume_file (D1, W1) = (Inr D, W)"
    and doc: "doc = dict_set D ''_id'' i"
  shows "fst ` set doc \<subseteq> {''name'', ''role'', ''linkedin'', ''github'', ''email'', ''createdAt'',
                           ''photoUrl'', ''resumeUrl'', ''_id''}"
    and "map_of doc ''name'' = Some (dict_get member_data ''name'')"
    and "map_of doc ''role'' = Some (dict_get member_data ''role'')"
    and "map_of doc ''linkedin'' = Some (dict_get member_data ''linkedin'')"
    and "map_of doc ''github'' = Some (dict_get member_data ''github'')"
    and "map_of doc ''email'' = Some (dict_get member_data ''email'')"
    and "map_of doc ''createdAt'' = Some (PyDatetime (utcnow e (tick w)))"
    and "map_of doc ''_id'' = Some i"
    and "map_of doc ''password'' = None"
    and "map_of doc ''isAdmin'' = None"
    and "members_collection W = members_collection w"
    and "users_collection W = users_collection w"
proof -
  let ?d0 = "[(''name'', dict_get member_data ''name''),
                  (''role'', dict_get member_data ''role''),
                  (''linkedin'', dict_get member_data ''linkedin''),
                  (''github'', dict_get member_data ''github''),
                  (''email'', dict_get member_data ''email''),
                  (''createdAt'', PyDatetime (utcnow e (tick w)))]"
  have k1: "map_of D1 k = map_of ?d0 k" if "k \<noteq> ''photoUrl''" for k
    using attach_file_saved(1)[OF photo that] by simp
  have k: "map_of D k = map_of ?d0 k" if "k \<noteq> ''resumeUrl''" "k \<noteq> ''photoUrl''" for k
    using attach_file_saved(1)[OF resume that(1)] k1[OF that(2)] by simp
  have "fst ` set D \<subseteq> insert ''resumeUrl'' (fst ` set D1)"
    using attach_file_saved(2)[OF resume] by simp
  moreover have "fst ` set D1 \<subseteq> insert ''photoUrl'' (fst ` set ?d0)"
    using attach_file_saved(2)[OF photo] by simp
  ultimately have "fst ` set D \<subseteq> {''name'', ''role'', ''linkedin'', ''github'', ''email'', ''createdAt'',
                           ''photoUrl'', ''resumeUrl''}"
    by auto
  then show "fst ` set doc \<subseteq> {''name'', ''role'', ''linkedin'', ''github'', ''email'', ''createdAt'',
                           ''photoUrl'', ''resumeUrl'', ''_id''}"
    unfolding doc dict_set_def dom_update by auto
  show "map_of doc ''name'' = Some (dict_get member_data ''name'')"
    and "map_of doc ''role'' = Some (dict_get member_data ''role'')"
    and "map_of doc ''linkedin'' = Some (dict_get member_data ''linkedin'')"
    and "map_of doc ''github'' = Some (dict_get member_data ''github'')"
    and "map_of doc ''email'' = Some (dict_get member_data ''email'')"
    and "map_of doc ''createdAt'' = Some (PyDatetime (utcnow e (tick w)))"
    and "map_of doc ''_id'' = Some i"
    and "map_of doc ''password'' = None"
    and "map_of doc ''isAdmin'' = None"
    unfolding doc dict_set_def by (simp_all add: update_conv' k)
  have "members_collection W1 = members_collection w" "users_collection W1 = users_collection w"
    using attach_file_collections(2,5)[of e "''photoUrl''" photo_file "(?d0, w\<lparr>tick := Suc (tick w)\<rparr>)"]
      photo by simp_all
  then show "members_collection W = members_collection w" "users_collection W = users_collection w"
    using attach_file_collections(2,5)[of e "''resumeUrl''" resume_file "(D1, W1)"] resume
    by simp_all
qed

text \<open>With uploads the file store accepts, both attachments succeed.\<close>

lemma member_files_attached:
  assumes "storable e photo_file" "storable e resume_file"
  obtains D1 W1 D W where
    "attach_file e ''photoUrl'' photo_file (d0, w1) = (Inr D1, W1)"
    "attach_file e ''resumeUrl'' resume_file (D1, W1) = (Inr D, W)"
proof -
  from attach_file_storable[OF assms(1), of "''photoUrl''" "(d0, w1)"]
  obtain D1 W1 where a: "attach_file e ''photoUrl'' photo_file (d0, w1) = (Inr D1, W1)" by blast
  from attach_file_storable[OF assms(2), of "''resumeUrl''" "(D1, W1)"]
  obtain D W where "attach_file e ''resumeUrl'' resume_file (D1, W1) = (Inr D, W)" by blast
  with a that show ?thesis by blast
qed

section \<open>The examples, evaluated\<close>

lemma splitext_example: "splitext ''me.tar.gz'' = (''me.tar'', ''.gz'')"
  by code_simp

lemma hex_example: "hex 32 42 = ''0000000000000000000000000000002a''"
  by code_simp

lemma splitext_overlong:
  "snd (splitext (CHR ''x'' # CHR ''.'' # replicate 300 CHR ''e'')) = CHR ''.'' # replicate 300 CHR ''e''"
  by code_simp

lemma splitext_nul:
  "snd (splitext [CHR ''x'', CHR ''.'', CHR ''p'', CHR 0x00, CHR ''g''])
     = [CHR ''.'', CHR ''p'', CHR 0x00, CHR ''g'']"
  by code_simp

lemma example_env_sel:
  "utcnow example_env n = Datetime ''2025-01-21 09:00:00''"
  "new_object_id example_env n = of_nat n"
  "uuid4_int example_env n = 42"
  "pwd_hash example_env (PyStr s) n = Inr (''$2b$'' @ rev s)"
  "pwd_verify example_env s (PyStr d) = Inr (d = ''$2b$'' @ rev s)"
  "name_max example_env = 255"
  by (simp_all add: example_env_def)

lemma empty_world_sel:
  "projects_collection empty_world = []" "members_collection empty_world = []"
  "gallery_collection empty_world = []" "blogs_collection empty_world = []"
  "users_collection empty_world = []" "disk empty_world = []" "tick empty_world = 0"
  by (simp_all add: empty_world_def)

lemma example_uploads_sel:
  "filename example_photo = Some ''me.tar.gz''" "content example_photo = [1, 2, 3]"
  "filename unnamed_upload = Some []"
  "filename overlong_upload = Some (''x.'' @ replicate 300 CHR ''e'')"
  "filename nul_upload = Some (''x.p'' @ [CHR 0x00] @ ''g'')"
  by (simp_all add: example_photo_def unnamed_upload_def overlong_upload_def nul_upload_def)

lemma example_uploads_storable:
  "storable example_env None"
  "storable example_env (Some unnamed_upload)"
  "storable example_env (Some example_photo)"
  "\<not> storable example_env (Some overlong_upload)"
  "\<not> storable example_env (Some nul_upload)"
  by (simp_all add: storable_def example_uploads_sel splitext_example splitext_overlong
      splitext_nul example_env_sel)

lemma example_photo_saved:
  "save_upload_file example_env (Some example_photo) w =
     (Inr (PyStr ''/uploads/0000000000000000000000000000002a.gz''),
      w\<lparr>tick := Suc (tick w),
        disk := AList.update ''uploads/0000000000000000000000000000002a.gz'' [1, 2, 3] (disk w)\<rparr>)"
  using save_upload_file_named[of example_photo "''me.tar.gz''" example_env w]
  by (simp add: example_uploads_sel splitext_example hex_example example_env_sel Let_def)

lemma unnamed_upload_saved:
  "save_upload_file example_env (Some unnamed_upload) w = (Inr PyNone, w)"
  by (simp add: save_upload_file_no_file example_uploads_sel)

lemma overlong_upload_refused:
  "save_upload_file example_env (Some overlong_upload) w = (Inl OSError, w\<lparr>tick := Suc (tick w)\<rparr>)"
  using save_upload_file_named[of overlong_upload "''x.'' @ replicate 300 CHR ''e''" example_env w]
  by (simp add: example_uploads_sel splitext_overlong example_env_sel Let_def
     )

lemma nul_upload_refused:
  "save_upload_file example_env (Some nul_upload) w = (Inl ValueError, w\<lparr>tick := Suc (tick w)\<rparr>)"
  using save_upload_file_named[of nul_upload "''x.p'' @ [CHR 0x00] @ ''g''" example_env w]
  by (simp add: example_uploads_sel splitext_nul Let_def)

lemmas eval_defs = dict_pop_def dict_get_def attach_file_def insert_one_def dict_set_def
  get_user_by_email_def find_one_def matches_def dict_truthy_def mongo_id_serializer_def dict_del_def
  Let_def

lemma save_no_upload: "save_upload_file e None w = (Inr PyNone, w)"
  by (simp add: save_upload_file_def)

lemma ann_world_eval:
  "ann_world = empty_world
     \<lparr>members_collection :=
        [[(''name'', PyStr ''Ann''), (''role'', PyStr ''Lead''), (''linkedin'', PyStr []),
          (''github'', PyStr []), (''email'', PyStr ''ann@example.org''),
          (''createdAt'', PyDatetime (Datetime ''2025-01-21 09:00:00'')),
          (''_id'', PyObjectId 1)]],
      users_collection :=
        [[(''name'', PyStr ''Ann''), (''email'', PyStr ''ann@example.org''),
          (''password'', PyStr ''$2b$terces''),
          (''createdAt'', PyDatetime (Datetime ''2025-01-21 09:00:00'')),
          (''_id'', PyObjectId 4)]],
      tick := 5\<rparr>"
  unfolding ann_world_def add_member_def example_admin_def
  by (simp add: eval_defs example_env_sel empty_world_sel)

lemma ann_world_sel:
  "users_collection ann_world =
        [[(''name'', PyStr ''Ann''), (''email'', PyStr ''ann@example.org''),
          (''password'', PyStr ''$2b$terces''),
          (''createdAt'', PyDatetime (Datetime ''2025-01-21 09:00:00'')),
          (''_id'', PyObjectId 4)]]"
  "members_collection ann_world =
        [[(''name'', PyStr ''Ann''), (''role'', PyStr ''Lead''), (''linkedin'', PyStr []),
          (''github'', PyStr []), (''email'', PyStr ''ann@example.org''),
          (''createdAt'', PyDatetime (Datetime ''2025-01-21 09:00:00'')),
          (''_id'', PyObjectId 1)]]"
  "tick ann_world = 5"
  by (simp_all add: ann_world_eval empty_world_def)

section \<open>Reading back what was added\<close>

lemma serialized_item:
  assumes "map_of stored ''_id'' \<noteq> None"
  shows "map_of (mongo_id_serializer stored) ''_id'' = None \<and>
         (\<exists>s. map_of (mongo_id_serializer stored) ''id'' = Some (PyStr s))"
  using assms serializer_public_id[of stored] by (auto simp: serializer_no_internal_id)

lemma get_all_after_append:
  "serialize_cursor [] (coll @ [stored]) = serialize_cursor [] coll @ [mongo_id_serializer stored]"
  by (simp add: serialize_cursor_map)

lemma add_member_members:
  assumes sp: "storable e photo_file" and sr: "storable e resume_file"
  shows "\<exists>doc. members_collection (snd (add_member e member_data photo_file resume_file w))
            = members_collection w @ [doc] \<and> map_of doc ''_id'' \<noteq> None"
proof -
  let ?d0 = "[(''name'', dict_get member_data ''name''),
                  (''role'', dict_get member_data ''role''),
                  (''linkedin'', dict_get member_data ''linkedin''),
                  (''github'', dict_get member_data ''github''),
                  (''email'', dict_get member_data ''email''),
                  (''createdAt'', PyDatetime (utcnow e (tick w)))]"
  from sp sr obtain D1 W1 D W where
    photo: "attach_file e ''photoUrl'' photo_file (?d0, w\<lparr>tick := Suc (tick w)\<rparr>) = (Inr D1, W1)"
    and resume: "attach_file e ''resumeUrl'' resume_file (D1, W1) = (Inr D, W)"
    by (rule member_files_attached)
  define doc where "doc = dict_set D ''_id'' (PyObjectId (new_object_id e (tick W)))"
  define w4 where "w4 = W\<lparr>members_collection := members_collection W @ [doc], tick := Suc (tick W)\<rparr>"
  note f = member_doc_fields[OF photo resume doc_def]
  note u = add_member_unfold[OF photo resume w4_def[unfolded doc_def] refl refl refl refl]
  have m4: "members_collection w4 = members_collection w @ [doc]"
    by (simp add: w4_def f)
  have "members_collection (snd (add_member e member_data photo_file resume_file w))
       = members_collection w @ [doc]"
    unfolding u using m4 by (simp split: sum.splits)
  with f(8) show ?thesis by auto
qed

lemma hex_24_example: "hex 24 2 = ''000000000000000000000002''"
  by code_simp

lemma example_project_added:
  "add_project example_env example_project (Some example_photo) empty_world =
     (Inr (result_dict ''success'' ''Project added successfully''),
      empty_world
        \<lparr>projects_collection :=
          [[(''title'', PyStr ''Hive''), (''description'', PyStr ''A site''),
            (''techStack'', PyOther True (''['' @ [CHR 0x27] @ ''py'' @ [CHR 0x27] @ '']'')),
            (''github'', PyStr []), (''linkedin'', PyStr []),
            (''imageUrl'', PyStr ''/uploads/0000000000000000000000000000002a.gz''),
            (''createdAt'', PyDatetime (Datetime ''2025-01-21 09:00:00'')),
            (''_id'', PyObjectId 2)]],
         disk := [(''uploads/0000000000000000000000000000002a.gz'', [1, 2, 3])],
         tick := 3\<rparr>)"
  unfolding add_project_def example_project_def
  by (simp add: eval_defs example_photo_saved example_env_sel empty_world_sel empty_world_def)

section \<open>The URL fields of optional files\<close>

lemma add_member_photo_field:
  assumes sp: "storable e photo_file" and sr: "storable e resume_file"
  shows "\<exists>doc. members_collection (snd (add_member e member_data photo_file resume_file w))
            = members_collection w @ [doc] \<and>
          (photo_file = None \<longrightarrow> map_of doc ''photoUrl'' = None) \<and>
          (photo_file \<noteq> None \<longrightarrow>
             (\<exists>image_url. fst (save_upload_file e photo_file (w\<lparr>tick := Suc (tick w)\<rparr>))
                            = Inr image_url \<and>
                          map_of doc ''photoUrl'' = Some image_url))"
proof -
  let ?d0 = "[(''name'', dict_get member_data ''name''),
                  (''role'', dict_get member_data ''role''),
                  (''linkedin'', dict_get member_data ''linkedin''),
                  (''github'', dict_get member_data ''github''),
                  (''email'', dict_get member_data ''email''),
                  (''createdAt'', PyDatetime (utcnow e (tick w)))]"
  from sp sr obtain D1 W1 D W where
    photo: "attach_file e ''photoUrl'' photo_file (?d0, w\<lparr>tick := Suc (tick w)\<rparr>) = (Inr D1, W1)"
    and resume: "attach_file e ''resumeUrl'' resume_file (D1, W1) = (Inr D, W)"
    by (rule member_files_attached)
  define doc where "doc = dict_set D ''_id'' (PyObjectId (new_object_id e (tick W)))"
  define w4 where "w4 = W\<lparr>members_collection := members_collection W @ [doc], tick := Suc (tick W)\<rparr>"
  note f = member_doc_fields[OF photo resume doc_def]
  note u = add_member_unfold[OF photo resume w4_def[unfolded doc_def] refl refl refl refl]
  have m4: "members_collection w4 = members_collection w @ [doc]"
    by (simp add: w4_def f)
  have mem: "members_collection (snd (add_member e member_data photo_file resume_file w))
       = members_collection w @ [doc]"
    unfolding u using m4 by (simp split: sum.splits)
  have d: "map_of doc ''photoUrl'' = map_of D1 ''photoUrl''"
    unfolding doc_def dict_set_def using attach_file_saved(1)[OF resume, of "''photoUrl''"]
    by (simp add: update_conv')
  have "photo_file = None \<longrightarrow> map_of doc ''photoUrl'' = None"
    using attach_file_saved(3)[OF photo] d by simp
  moreover have "photo_file \<noteq> None \<longrightarrow>
             (\<exists>image_url. fst (save_upload_file e photo_file (w\<lparr>tick := Suc (tick w)\<rparr>))
                            = Inr image_url \<and>
                          map_of doc ''photoUrl'' = Some image_url)"
    using attach_file_saved(4)[OF photo] d by simp
  ultimately show ?thesis using mem by blast
qed

text \<open>
  An upload without a name leaves \<open>photoUrl: None\<close> on the member, for every input.
\<close>

lemma unnamed_photo_stored_as_none:
  assumes "filename f = None \<or> filename f = Some []" and sr: "storable e resume_file"
  shows "\<exists>doc. members_collection (snd (add_member e member_data (Some f) resume_file w))
            = members_collection w @ [doc] \<and>
          map_of doc ''photoUrl'' = Some PyNone"
proof -
  have sp: "storable e (Some f)"
    using assms(1) by (auto intro: storable_no_file)
  from add_member_photo_field[OF sp sr, of member_data w]
    save_upload_file_no_file[of "Some f" e "w\<lparr>tick := Suc (tick w)\<rparr>"] assms(1)
  show ?thesis by auto
qed

text \<open>The three operations that test the URL set no \<open>imageUrl\<close> for such an upload.\<close>

lemma add_project_no_file:
  assumes "image_file = None \<or> (\<exists>f. image_file = Some f \<and> (filename f = None \<or> filename f = Some []))"
    and "fst (add_project e project_data image_file w) = Inr r"
  shows "\<exists>stored. projects_collection (snd (add_project e project_data image_file w))
                     = projects_collection w @ [stored] \<and>
           map_of stored ''imageUrl'' = map_of project_data ''imageUrl''"
  using add_project_stored[OF assms(2)] save_upload_file_no_file[OF assms(1), of e w]
  by auto

lemma add_gallery_item_no_file:
  assumes "image_file = None \<or> (\<exists>f. image_file = Some f \<and> (filename f = None \<or> filename f = Some []))"
    and "fst (add_gallery_item e gallery_data image_file w) = Inr r"
  shows "\<exists>stored. gallery_collection (snd (add_gallery_item e gallery_data image_file w))
                     = gallery_collection w @ [stored] \<and>
           map_of stored ''imageUrl'' = map_of gallery_data ''imageUrl''"
  using add_gallery_item_stored[OF assms(2)] save_upload_file_no_file[OF assms(1), of e w]
  by auto

lemma add_blog_no_file:
  assumes "image_file = None \<or> (\<exists>f. image_file = Some f \<and> (filename f = None \<or> filename f = Some []))"
    and "fst (add_blog e blog_data image_file w) = Inr r"
  shows "\<exists>stored. blogs_collection (snd (add_blog e blog_data image_file w))
                     = blogs_collection w @ [stored] \<and>
           map_of stored ''imageUrl'' = map_of blog_data ''imageUrl''"
  using add_blog_stored[OF assms(2)] save_upload_file_no_file[OF assms(1), of e w]
  by auto

text \<open>A named upload that is saved is stored under the public prefix, by all four operations.\<close>

lemma add_project_named_file:
  assumes "filename f = Some fname" "fname \<noteq> []"
    and "fst (add_project e project_data (Some f) w) = Inr r"
  shows "\<exists>stored name. projects_collection (snd (add_project e project_data (Some f) w))
                     = projects_collection w @ [stored] \<and>
           map_of stored ''imageUrl'' = Some (PyStr (''/uploads/'' @ name))"
proof -
  from add_project_stored[OF assms(3)] obtain stored image_url where
    s: "fst (save_upload_file e (Some f) w) = Inr image_url"
      "projects_collection (snd (add_project e project_data (Some f) w)) = projects_collection w @ [stored]"
      "map_of stored ''imageUrl'' =
         (if truthy image_url then Some image_url else map_of project_data ''imageUrl'')"
    by blast
  from s(1) have "\<exists>name. image_url = PyStr (''/uploads/'' @ name)"
    using save_upload_file_named[OF assms(1,2), of e w]
    by (auto simp: Let_def split: if_splits)
  with s show ?thesis by auto
qed

lemma add_gallery_item_named_file:
  assumes "filename f = Some fname" "fname \<noteq> []"
    and "fst (add_gallery_item e gallery_data (Some f) w) = Inr r"
  shows "\<exists>stored name. gallery_collection (snd (add_gallery_item e gallery_data (Some f) w))
                     = gallery_collection w @ [stored] \<and>
           map_of stored ''imageUrl'' = Some (PyStr (''/uploads/'' @ name))"
proof -
  from add_gallery_item_stored[OF assms(3)] obtain stored image_url where
    s: "fst (save_upload_file e (Some f) w) = Inr image_url"
      "gallery_collection (snd (add_gallery_item e gallery_data (Some f) w)) = gallery_collection w @ [stored]"
      "map_of stored ''imageUrl'' =
         (if truthy image_url then Some image_url else map_of gallery_data ''imageUrl'')"
    by blast
  from s(1) have "\<exists>name. image_url = PyStr (''/uploads/'' @ name)"
    using save_upload_file_named[OF assms(1,2), of e w]
    by (auto simp: Let_def split: if_splits)
  with s show ?thesis by auto
qed

lemma add_blog_named_file:
  assumes "filename f = Some fname" "fname \<noteq> []"
    and "fst (add_blog e blog_data (Some f) w) = Inr r"
  shows "\<exists>stored name. blogs_collection (snd (add_blog e blog_data (Some f) w))
                     = blogs_collection w @ [stored] \<and>
           map_of stored ''imageUrl'' = Some (PyStr (''/uploads/'' @ name))"
proof -
  from add_blog_stored[OF assms(3)] obtain stored image_url where
    s: "fst (save_upload_file e (Some f) w) = Inr image_url"
      "blogs_collection (snd (add_blog e blog_data (Some f) w)) = blogs_collection w @ [stored]"
      "map_of stored ''imageUrl'' =
         (if truthy image_url then Some image_url else map_of blog_data ''imageUrl'')"
    by blast
  from s(1) have "\<exists>name. image_url = PyStr (''/uploads/'' @ name)"
    using save_upload_file_named[OF assms(1,2), of e w]
    by (auto simp: Let_def split: if_splits)
  with s show ?thesis by auto
qed

lemma add_member_named_photo:
  assumes "filename f = Some fname" "fname \<noteq> []"
    and sp: "storable e (Some f)" and sr: "storable e resume_file"
  shows "\<exists>doc name. members_collection (snd (add_member e member_data (Some f) resume_file w))
            = members_collection w @ [doc] \<and>
          map_of doc ''photoUrl'' = Some (PyStr (''/uploads/'' @ name))"
proof -
  from add_member_photo_field[OF sp sr, of member_data w] obtain doc image_url where
    d: "members_collection (snd (add_member e member_data (Some f) resume_file w))
            = members_collection w @ [doc]"
      "fst (save_upload_file e (Some f) (w\<lparr>tick := Suc (tick w)\<rparr>)) = Inr image_url"
      "map_of doc ''photoUrl'' = Some image_url"
    by auto
  from d(2) have "\<exists>name. image_url = PyStr (''/uploads/'' @ name)"
    using save_upload_file_named[OF assms(1,2), of e "w\<lparr>tick := Suc (tick w)\<rparr>"]
    by (auto simp: Let_def split: if_splits)
  with d show ?thesis by auto
qed

section \<open>The session and the login gate\<close>

lemma matches_not_none: "v \<noteq> PyNone \<Longrightarrow> matches d k v \<Longrightarrow> map_of d k = Some v"
  by (auto simp: matches_def split: option.splits)

lemma get_user_by_email_str:
  assumes "get_user_by_email (PyStr email) w = Some u"
  shows "u \<noteq> [] \<and> map_of u ''email'' = Some (PyStr email)"
proof -
  from assms obtain d where d: "find_one (users_collection w) ''email'' (PyStr email) = Some d"
    and u: "u = mongo_id_serializer d"
    by (auto simp: get_user_by_email_def Let_def dict_truthy_def split: if_splits option.splits)
  from find_one_Some[OF d] have "map_of d ''email'' = Some (PyStr email)"
    using matches_not_none[of "PyStr email" d "''email''"] by simp
  then have "map_of u ''email'' = Some (PyStr email)"
    unfolding u by (simp add: serializer_other_fields)
  then show ?thesis by auto
qed

lemma quote_byte_chars: "set (quote_byte c) \<subseteq> insert CHR ''%'' (set ''0123456789ABCDEF'')"
proof -
  have "hexdigit_upper d \<in> set ''0123456789ABCDEF''" for d
  proof -
    have "d mod 16 < length ''0123456789ABCDEF''" by simp
    then show ?thesis unfolding hexdigit_upper_def by (rule nth_mem)
  qed
  then show ?thesis unfolding quote_byte_def by auto
qed

lemma quote_chars: "set (quote s safe) \<subseteq> set ALWAYS_SAFE \<union> set safe \<union> {CHR ''%''}"
proof -
  have "set ''0123456789ABCDEF'' \<subseteq> set ALWAYS_SAFE"
    by (simp add: ALWAYS_SAFE_def)
  with quote_byte_chars show ?thesis
    unfolding quote_def by (fastforce split: if_splits)
qed


lemma get_current_user_cases:
  "get_current_user req w =
     (if truthy (dict_get (session req) ''user_email'')
      then get_user_by_email (dict_get (session req) ''user_email'') w else None)"
  by (simp add: get_current_user_def Let_def)

lemma dict_index_Some: "map_of d k = Some v \<Longrightarrow> dict_index d k = Inr v"
  by (simp add: dict_index_def)

section \<open>Complete user documents\<close>

lemma users_complete_empty: "users_complete empty_world"
  by (simp add: users_complete_def empty_world_def)

lemma add_member_users:
  "users_collection (snd (add_member e member_data photo_file resume_file w))
        = users_collection w \<or>
      (\<exists>salt digest created i.
         pwd_hash e (dict_get member_data ''password'') salt = Inr digest \<and>
         users_collection (snd (add_member e member_data photo_file resume_file w))
           = users_collection w @
               [[(''name'', dict_get member_data ''name''),
                 (''email'', dict_get member_data ''email''),
                 (''password'', PyStr digest),
                 (''createdAt'', PyDatetime created),
                 (''_id'', PyObjectId i)]])"
proof (cases "storable e photo_file \<and> storable e resume_file")
  case False
  from add_member_raises[OF False, of member_data w] show ?thesis by auto
next
  case True
  then have sp: "storable e photo_file" and sr: "storable e resume_file" by simp_all
  let ?d0 = "[(''name'', dict_get member_data ''name''),
                  (''role'', dict_get member_data ''role''),
                  (''linkedin'', dict_get member_data ''linkedin''),
                  (''github'', dict_get member_data ''github''),
                  (''email'', dict_get member_data ''email''),
                  (''createdAt'', PyDatetime (utcnow e (tick w)))]"
  from sp sr obtain D1 W1 D W where
    photo: "attach_file e ''photoUrl'' photo_file (?d0, w\<lparr>tick := Suc (tick w)\<rparr>) = (Inr D1, W1)"
    and resume: "attach_file e ''resumeUrl'' resume_file (D1, W1) = (Inr D, W)"
    by (rule member_files_attached)
  define doc where "doc = dict_set D ''_id'' (PyObjectId (new_object_id e (tick W)))"
  define w4 where "w4 = W\<lparr>members_collection := members_collection W @ [doc], tick := Suc (tick W)\<rparr>"
  note f = member_doc_fields[OF photo resume doc_def]
  note u = add_member_unfold[OF photo resume w4_def[unfolded doc_def] refl refl refl refl]
  have u4: "users_collection w4 = users_collection w"
    by (simp add: w4_def f)
  show ?thesis
    unfolding u using u4 by (auto split: sum.splits)
qed

lemma add_member_users_complete:
  assumes "users_complete w"
  shows "users_complete (snd (add_member e member_data photo_file resume_file w))"
  using add_member_users[of e member_data photo_file resume_file w] assms
  by (auto simp: users_complete_def user_doc_complete_def)

lemma add_project_users:
  "users_collection (snd (add_project e project_data image_file w)) = users_collection w"
proof -
  obtain sv w1 where sv: "save_upload_file e image_file w = (sv, w1)"
    by fastforce
  have c: "users_collection w1 = users_collection w"
    using save_upload_file_collections(5)[of e image_file w] sv by simp
  show ?thesis
  proof (cases sv)
    case (Inl err)
    with sv c show ?thesis by (simp add: add_raises)
  next
    case (Inr image_url)
    with sv c show ?thesis
      by (simp add: add_project_unfold[OF sv[unfolded Inr] refl] split: sum.splits prod.splits)
  qed
qed

lemma add_gallery_item_users:
  "users_collection (snd (add_gallery_item e gallery_data image_file w)) = users_collection w"
proof -
  obtain sv w1 where sv: "save_upload_file e image_file w = (sv, w1)"
    by fastforce
  have c: "users_collection w1 = users_collection w"
    using save_upload_file_collections(5)[of e image_file w] sv by simp
  show ?thesis
  proof (cases sv)
    case (Inl err)
    with sv c show ?thesis by (simp add: add_raises)
  next
    case (Inr image_url)
    with sv c show ?thesis
      by (simp add: add_gallery_item_unfold[OF sv[unfolded Inr] refl] split: sum.splits prod.splits)
  qed
qed

lemma add_blog_users:
  "users_collection (snd (add_blog e blog_data image_file w)) = users_collection w"
proof -
  obtain sv w1 where sv: "save_upload_file e image_file w = (sv, w1)"
    by fastforce
  have c: "users_collection w1 = users_collection w"
    using save_upload_file_collections(5)[of e image_file w] sv by simp
  show ?thesis
  proof (cases sv)
    case (Inl err)
    with sv c show ?thesis by (simp add: add_raises)
  next
    case (Inr image_url)
    with sv c show ?thesis
      by (simp add: add_blog_unfold[OF sv[unfolded Inr] refl] split: sum.splits prod.splits)
  qed
qed

lemma serializer_complete:
  "user_doc_complete d \<Longrightarrow> user_doc_complete (mongo_id_serializer d)"
  by (simp add: user_doc_complete_def serializer_other_fields)

text \<open>In a world whose user documents are complete, a user that is found can log in.\<close>

lemma found_user_complete:
  assumes "users_complete w" "get_user_by_email email w = Some u"
  shows "\<exists>name digest. map_of u ''name'' = Some name \<and> map_of u ''password'' = Some digest"
proof -
  from assms(2) obtain d where d: "find_one (users_collection w) ''email'' email = Some d"
    and u: "u = mongo_id_serializer d"
    by (auto simp: get_user_by_email_def Let_def dict_truthy_def split: if_splits option.splits)
  from find_one_Some[OF d] assms(1) have "user_doc_complete d"
    by (auto simp: users_complete_def list_all_iff)
  then have "user_doc_complete u"
    unfolding u by (rule serializer_complete)
  then show ?thesis by (auto simp: user_doc_complete_def)
qed

section \<open>The login examples, evaluated\<close>

lemma quote_example: "quote ''http://h/add-member?x=1'' [] = ''http%3A%2F%2Fh%2Fadd-member%3Fx%3D1''"
  by code_simp

lemma ann_lookup:
  "get_user_by_email (PyStr ''ann@example.org'') ann_world =
     Some [(''name'', PyStr ''Ann''), (''email'', PyStr ''ann@example.org''),
           (''password'', PyStr ''$2b$terces''),
           (''createdAt'', PyDatetime (Datetime ''2025-01-21 09:00:00'')),
           (''id'', PyStr ''000000000000000000000004'')]"
  "get_user_by_email (PyStr ''zed@example.org'') ann_world = None"
proof -
  have h: "hex 24 4 = ''000000000000000000000004''" by code_simp
  show "get_user_by_email (PyStr ''ann@example.org'') ann_world =
     Some [(''name'', PyStr ''Ann''), (''email'', PyStr ''ann@example.org''),
           (''password'', PyStr ''$2b$terces''),
           (''createdAt'', PyDatetime (Datetime ''2025-01-21 09:00:00'')),
           (''id'', PyStr ''000000000000000000000004'')]"
    by (simp add: eval_defs ann_world_sel h)
  show "get_user_by_email (PyStr ''zed@example.org'') ann_world = None"
    by (simp add: eval_defs ann_world_sel)
qed

lemma login_request_sel:
  "session anonymous_request = []"
  by (simp add: anonymous_request_def)

section \<open>The file store\<close>

text \<open>
  Claim C7, amended. \<open>save_upload_file\<close> returns \<open>None\<close> and leaves the world as it is
  when there is no file, or the file has no name or an empty one. Otherwise the name is
  a token of 32 hexadecimal digits, drawn from the random source at this call, followed
  by the extension of the original name (the part \<open>os.path.splitext\<close> splits off: empty,
  or the last dot of the name and what follows it). When that name has no NUL byte and
  is not longer than the file system accepts, the whole content is written at
  \<open>uploads/<name>\<close>, every other file and every collection is left alone, and the
  value returned is \<open>/uploads/<name>\<close>. When the extension has a NUL byte, opening the
  file raises \<open>ValueError\<close>, and when the name is too long it raises \<open>OSError\<close>: the
  error leaves the function, no file is written or changed and nothing is returned.
\<close>

theorem save_upload_file_spec:
  "save_upload_file e None w = (Inr PyNone, w) \<and>
   (filename f = None \<or> filename f = Some [] \<longrightarrow>
      save_upload_file e (Some f) w = (Inr PyNone, w)) \<and>
   (\<forall>fname. filename f = Some fname \<and> fname \<noteq> [] \<longrightarrow>
      (let token = hex 32 (unat (uuid4_int e (tick w)));
           ext = snd (splitext fname);
           r = fst (save_upload_file e (Some f) w);
           w' = snd (save_upload_file e (Some f) w)
       in length token = 32 \<and> set token \<subseteq> set ''0123456789abcdef''
        \<and> fst (splitext fname) @ ext = fname
        \<and> (ext = [] \<or> (\<exists>r. ext = CHR ''.'' # r \<and> CHR ''.'' \<notin> set r \<and> CHR ''/'' \<notin> set r))
        \<and> w' = w\<lparr>disk := disk w', tick := Suc (tick w)\<rparr>
        \<and> (CHR 0x00 \<notin> set ext \<and> 32 + length ext \<le> name_max e \<longrightarrow>
              r = Inr (PyStr (''/uploads/'' @ token @ ext))
            \<and> map_of (disk w') (''uploads/'' @ token @ ext) = Some (content f)
            \<and> (\<forall>p. p \<noteq> ''uploads/'' @ token @ ext \<longrightarrow> map_of (disk w') p = map_of (disk w) p))
        \<and> (CHR 0x00 \<in> set ext \<longrightarrow> r = Inl ValueError \<and> disk w' = disk w)
        \<and> (CHR 0x00 \<notin> set ext \<and> name_max e < 32 + length ext \<longrightarrow>
              r = Inl OSError \<and> disk w' = disk w)))"
proof (intro conjI allI impI)
  show "save_upload_file e None w = (Inr PyNone, w)"
    by (simp add: save_upload_file_def)
next
  assume "filename f = None \<or> filename f = Some []"
  then show "save_upload_file e (Some f) w = (Inr PyNone, w)"
    by (auto simp: save_upload_file_def)
next
  fix fname
  assume h: "filename f = Some fname \<and> fname \<noteq> []"
  let ?token = "hex 32 (unat (uuid4_int e (tick w)))"
  let ?ext = "snd (splitext fname)"
  from h have eq: "save_upload_file e (Some f) w =
      (if CHR 0x00 \<in> set ?ext then (Inl ValueError, w\<lparr>tick := Suc (tick w)\<rparr>)
       else if name_max e < 32 + length ?ext then (Inl OSError, w\<lparr>tick := Suc (tick w)\<rparr>)
       else (Inr (PyStr (''/uploads/'' @ ?token @ ?ext)),
             w\<lparr>tick := Suc (tick w),
               disk := AList.update (''uploads/'' @ ?token @ ?ext) (content f) (disk w)\<rparr>))"
    using save_upload_file_named[of f fname e w] by (simp add: Let_def)
  show "let token = ?token; ext = ?ext;
           r = fst (save_upload_file e (Some f) w);
           w' = snd (save_upload_file e (Some f) w)
       in length token = 32 \<and> set token \<subseteq> set ''0123456789abcdef''
        \<and> fst (splitext fname) @ ext = fname
        \<and> (ext = [] \<or> (\<exists>r. ext = CHR ''.'' # r \<and> CHR ''.'' \<notin> set r \<and> CHR ''/'' \<notin> set r))
        \<and> w' = w\<lparr>disk := disk w', tick := Suc (tick w)\<rparr>
        \<and> (CHR 0x00 \<notin> set ext \<and> 32 + length ext \<le> name_max e \<longrightarrow>
              r = Inr (PyStr (''/uploads/'' @ token @ ext))
            \<and> map_of (disk w') (''uploads/'' @ token @ ext) = Some (content f)
            \<and> (\<forall>p. p \<noteq> ''uploads/'' @ token @ ext \<longrightarrow> map_of (disk w') p = map_of (disk w) p))
        \<and> (CHR 0x00 \<in> set ext \<longrightarrow> r = Inl ValueError \<and> disk w' = disk w)
        \<and> (CHR 0x00 \<notin> set ext \<and> name_max e < 32 + length ext \<longrightarrow>
              r = Inl OSError \<and> disk w' = disk w)"
    unfolding Let_def eq
    using splitext_ext[of fname] set_hex[of 32 "unat (uuid4_int e (tick w))"]
    by (simp only: length_hex splitext_append) (simp add: update_conv')
qed

theorem save_upload_file_spec_witness:
  "filename unnamed_upload = Some [] \<and>
   save_upload_file example_env (Some unnamed_upload) empty_world = (Inr PyNone, empty_world) \<and>
   filename example_photo = Some ''me.tar.gz'' \<and>
   fst (save_upload_file example_env (Some example_photo) empty_world)
     = Inr (PyStr ''/uploads/0000000000000000000000000000002a.gz'') \<and>
   map_of (disk (snd (save_upload_file example_env (Some example_photo) empty_world)))
     ''uploads/0000000000000000000000000000002a.gz'' = Some [1, 2, 3] \<and>
   filename nul_upload = Some [CHR ''x'', CHR ''.'', CHR ''p'', CHR 0x00, CHR ''g''] \<and>
   fst (save_upload_file example_env (Some nul_upload) empty_world) = Inl ValueError \<and>
   disk (snd (save_upload_file example_env (Some nul_upload) empty_world)) = disk empty_world \<and>
   filename overlong_upload = Some (''x.'' @ replicate 300 CHR ''e'') \<and>
   fst (save_upload_file example_env (Some overlong_upload) empty_world) = Inl OSError \<and>
   disk (snd (save_upload_file example_env (Some overlong_upload) empty_world)) = disk empty_world"
proof -
  have c: "uuid4_int example_env (tick empty_world) = 42" "name_max example_env = 255"
    by (simp_all add: example_env_sel)
  have a: "save_upload_file example_env (Some unnamed_upload) empty_world = (Inr PyNone, empty_world)"
    using save_upload_file_spec[of example_env empty_world unnamed_upload]
    by (simp add: example_uploads_sel)
  have b: "fst (save_upload_file example_env (Some example_photo) empty_world)
     = Inr (PyStr ''/uploads/0000000000000000000000000000002a.gz'')"
    "map_of (disk (snd (save_upload_file example_env (Some example_photo) empty_world)))
     ''uploads/0000000000000000000000000000002a.gz'' = Some [1, 2, 3]"
    using save_upload_file_spec[of example_env empty_world example_photo]
    by (simp_all add: Let_def example_uploads_sel c splitext_example hex_example)
  have n: "fst (save_upload_file example_env (Some nul_upload) empty_world) = Inl ValueError"
    "disk (snd (save_upload_file example_env (Some nul_upload) empty_world)) = disk empty_world"
    using save_upload_file_spec[of example_env empty_world nul_upload]
    by (simp_all add: Let_def example_uploads_sel c splitext_nul)
  have l: "fst (save_upload_file example_env (Some overlong_upload) empty_world) = Inl OSError"
    "disk (snd (save_upload_file example_env (Some overlong_upload) empty_world)) = disk empty_world"
    using save_upload_file_spec[of example_env empty_world overlong_upload]
    by (simp_all add: Let_def example_uploads_sel c splitext_overlong)
  from a b n l show ?thesis
    by (simp add: example_uploads_sel)
qed

text \<open>
  Claim C7 as it is written does not hold for every call: the extension comes from the
  client, and with an extension of 300 letters the generated name is longer than the
  255 bytes the file system accepts, so opening the file raises \<open>OSError\<close>; with a NUL
  byte in the extension it raises \<open>ValueError\<close>. Nothing is written and no path is
  returned.
\<close>

theorem save_upload_file_name_refused:
  "filename overlong_upload = Some (''x.'' @ replicate 300 CHR ''e'') \<and>
   name_max example_env = 255 \<and>
   save_upload_file example_env (Some overlong_upload) empty_world
     = (Inl OSError, empty_world\<lparr>tick := 1\<rparr>) \<and>
   disk (empty_world\<lparr>tick := 1\<rparr>) = [] \<and>
   filename nul_upload = Some (''x.p'' @ [CHR 0x00] @ ''g'') \<and>
   save_upload_file example_env (Some nul_upload) empty_world
     = (Inl ValueError, empty_world\<lparr>tick := 1\<rparr>)"
  by (simp add: overlong_upload_refused nul_upload_refused example_uploads_sel example_env_sel
      empty_world_sel)

section \<open>Adding a member\<close>





text \<open>
  Claim C10. When its uploads are accepted by the file store, \<open>add_member\<close> inserts
  one member document, which has no fields but \<open>name\<close>, \<open>role\<close>, \<open>linkedin\<close>,
  \<open>github\<close>, \<open>email\<close>, \<open>createdAt\<close>, the optional \<open>photoUrl\<close> and \<open>resumeUrl\<close>,
  and the identifier the store assigns: neither the password nor the admin flag is a
  field of it. The users collection is then left as it was or gains exactly one
  document, whose \<open>password\<close> field is the digest the hasher returned for the password.
  When an upload is refused, the call raises before it inserts, and neither collection
  changes.
\<close>

theorem add_member_stored_fields:
  "(storable e photo_file \<and> storable e resume_file \<longrightarrow>
     (\<exists>doc.
     members_collection (snd (add_member e member_data photo_file resume_file w))
       = members_collection w @ [doc] \<and>
     fst ` set doc \<subseteq> {''name'', ''role'', ''linkedin'', ''github'', ''email'', ''createdAt'',
                        ''photoUrl'', ''resumeUrl'', ''_id''} \<and>
     map_of doc ''password'' = None \<and>
     map_of doc ''isAdmin'' = None \<and>
     map_of doc ''name'' = Some (dict_get member_data ''name'') \<and>
     map_of doc ''role'' = Some (dict_get member_data ''role'') \<and>
     map_of doc ''linkedin'' = Some (dict_get member_data ''linkedin'') \<and>
     map_of doc ''github'' = Some (dict_get member_data ''github'') \<and>
     map_of doc ''email'' = Some (dict_get member_data ''email'') \<and>
     map_of doc ''createdAt'' = Some (PyDatetime (utcnow e (tick w))) \<and>
     (users_collection (snd (add_member e member_data photo_file resume_file w))
        = users_collection w \<or>
      (\<exists>salt digest created i.
         pwd_hash e (dict_get member_data ''password'') salt = Inr digest \<and>
         users_collection (snd (add_member e member_data photo_file resume_file w))
           = users_collection w @
               [[(''name'', dict_get member_data ''name''),
                 (''email'', dict_get member_data ''email''),
                 (''password'', PyStr digest),
                 (''createdAt'', PyDatetime created),
                 (''_id'', PyObjectId i)]])))) \<and>
   (\<not> (storable e photo_file \<and> storable e resume_file) \<longrightarrow>
      members_collection (snd (add_member e member_data photo_file resume_file w))
        = members_collection w \<and>
      users_collection (snd (add_member e member_data photo_file resume_file w))
        = users_collection w)"
proof (intro conjI impI)
  assume "\<not> (storable e photo_file \<and> storable e resume_file)"
  from add_member_raises[OF this, of member_data w]
  show "members_collection (snd (add_member e member_data photo_file resume_file w))
        = members_collection w"
    and "users_collection (snd (add_member e member_data photo_file resume_file w))
        = users_collection w"
    by auto
next
  assume "storable e photo_file \<and> storable e resume_file"
  then have sp: "storable e photo_file" and sr: "storable e resume_file" by simp_all
  let ?d0 = "[(''name'', dict_get member_data ''name''),
                  (''role'', dict_get member_data ''role''),
                  (''linkedin'', dict_get member_data ''linkedin''),
                  (''github'', dict_get member_data ''github''),
                  (''email'', dict_get member_data ''email''),
                  (''createdAt'', PyDatetime (utcnow e (tick w)))]"
  from sp sr obtain D1 W1 D W where
    photo: "attach_file e ''photoUrl'' photo_file (?d0, w\<lparr>tick := Suc (tick w)\<rparr>) = (Inr D1, W1)"
    and resume: "attach_file e ''resumeUrl'' resume_file (D1, W1) = (Inr D, W)"
    by (rule member_files_attached)
  define doc where "doc = dict_set D ''_id'' (PyObjectId (new_object_id e (tick W)))"
  define w4 where "w4 = W\<lparr>members_collection := members_collection W @ [doc], tick := Suc (tick W)\<rparr>"
  note f = member_doc_fields[OF photo resume doc_def]
  note u = add_member_unfold[OF photo resume w4_def[unfolded doc_def] refl refl refl refl]
  have m4: "members_collection w4 = members_collection w @ [doc]"
    and u4: "users_collection w4 = users_collection w"
    by (simp_all add: w4_def f)
  have mem: "members_collection (snd (add_member e member_data photo_file resume_file w))
       = members_collection w @ [doc]"
    unfolding u using m4 by (simp split: sum.splits)
  have usr: "users_collection (snd (add_member e member_data photo_file resume_file w))
        = users_collection w \<or>
      (\<exists>salt digest created i.
         pwd_hash e (dict_get member_data ''password'') salt = Inr digest \<and>
         users_collection (snd (add_member e member_data photo_file resume_file w))
           = users_collection w @
               [[(''name'', dict_get member_data ''name''),
                 (''email'', dict_get member_data ''email''),
                 (''password'', PyStr digest),
                 (''createdAt'', PyDatetime created),
                 (''_id'', PyObjectId i)]])"
    unfolding u using u4 by (auto split: sum.splits)
  from mem usr f show "\<exists>doc.
     members_collection (snd (add_member e member_data photo_file resume_file w))
       = members_collection w @ [doc] \<and>
     fst ` set doc \<subseteq> {''name'', ''role'', ''linkedin'', ''github'', ''email'', ''createdAt'',
                        ''photoUrl'', ''resumeUrl'', ''_id''} \<and>
     map_of doc ''password'' = None \<and>
     map_of doc ''isAdmin'' = None \<and>
     map_of doc ''name'' = Some (dict_get member_data ''name'') \<and>
     map_of doc ''role'' = Some (dict_get member_data ''role'') \<and>
     map_of doc ''linkedin'' = Some (dict_get member_data ''linkedin'') \<and>
     map_of doc ''github'' = Some (dict_get member_data ''github'') \<and>
     map_of doc ''email'' = Some (dict_get member_data ''email'') \<and>
     map_of doc ''createdAt'' = Some (PyDatetime (utcnow e (tick w))) \<and>
     (users_collection (snd (add_member e member_data photo_file resume_file w))
        = users_collection w \<or>
      (\<exists>salt digest created i.
         pwd_hash e (dict_get member_data ''password'') salt = Inr digest \<and>
         users_collection (snd (add_member e member_data photo_file resume_file w))
           = users_collection w @
               [[(''name'', dict_get member_data ''name''),
                 (''email'', dict_get member_data ''email''),
                 (''password'', PyStr digest),
                 (''createdAt'', PyDatetime created),
                 (''_id'', PyObjectId i)]]))"
    by blast
qed

theorem add_member_stored_fields_witness:
  "storable example_env None \<and>
   members_collection ann_world =
        [[(''name'', PyStr ''Ann''), (''role'', PyStr ''Lead''), (''linkedin'', PyStr []),
          (''github'', PyStr []), (''email'', PyStr ''ann@example.org''),
          (''createdAt'', PyDatetime (Datetime ''2025-01-21 09:00:00'')),
          (''_id'', PyObjectId 1)]] \<and>
   users_collection ann_world =
        [[(''name'', PyStr ''Ann''), (''email'', PyStr ''ann@example.org''),
          (''password'', PyStr ''$2b$terces''),
          (''createdAt'', PyDatetime (Datetime ''2025-01-21 09:00:00'')),
          (''_id'', PyObjectId 4)]] \<and>
   pwd_hash example_env (dict_get example_admin ''password'') 2 = Inr ''$2b$terces'' \<and>
   (\<exists>doc. members_collection ann_world = members_collection empty_world @ [doc] \<and>
          map_of doc ''password'' = None \<and> map_of doc ''isAdmin'' = None) \<and>
   \<not> storable example_env (Some overlong_upload) \<and>
   members_collection (snd (add_member example_env example_admin (Some overlong_upload) None
                              empty_world)) = [] \<and>
   users_collection (snd (add_member example_env example_admin (Some overlong_upload) None
                            empty_world)) = []"
proof -
  note s = example_uploads_storable(1)
  note n = example_uploads_storable(4)
  from add_member_stored_fields[of example_env None None example_admin empty_world] s
  have a: "\<exists>doc. members_collection ann_world = members_collection empty_world @ [doc] \<and>
          map_of doc ''password'' = None \<and> map_of doc ''isAdmin'' = None"
    unfolding ann_world_def by blast
  from add_member_stored_fields[of example_env "Some overlong_upload" None example_admin
      empty_world] n
  have b: "members_collection (snd (add_member example_env example_admin (Some overlong_upload)
                              None empty_world)) = []"
    "users_collection (snd (add_member example_env example_admin (Some overlong_upload) None
                            empty_world)) = []"
    by (simp_all add: empty_world_sel)
  have c: "pwd_hash example_env (dict_get example_admin ''password'') 2 = Inr ''$2b$terces''"
    by (simp add: example_admin_def dict_get_def example_env_sel)
  from s n a b c show ?thesis by (simp add: ann_world_sel)
qed

section \<open>Optional files\<close>

text \<open>
  Claim C3, at the input where the code departs from it. A member is added with a photo
  upload whose filename is empty: \<open>add_member\<close> tests the upload object, not the URL, so
  the inserted document carries \<open>photoUrl\<close> with the value \<open>None\<close>. \<open>add_project\<close>,
  given the same upload, tests the URL and sets no \<open>imageUrl\<close>.
\<close>

theorem add_member_unnamed_photo:
  "filename unnamed_upload = Some [] \<and>
   fst (add_member example_env example_member (Some unnamed_upload) None empty_world)
     = Inr (result_dict ''success'' ''Member added successfully'') \<and>
   members_collection
     (snd (add_member example_env example_member (Some unnamed_upload) None empty_world)) =
        [[(''name'', PyStr ''Cy''), (''role'', PyStr ''Dev''), (''linkedin'', PyStr []),
          (''github'', PyStr []), (''email'', PyStr ''cy@example.org''),
          (''createdAt'', PyDatetime (Datetime ''2025-01-21 09:00:00'')),
          (''photoUrl'', PyNone),
          (''_id'', PyObjectId 1)]] \<and>
   projects_collection
     (snd (add_project example_env example_project (Some unnamed_upload) empty_world)) =
        [[(''title'', PyStr ''Hive''), (''description'', PyStr ''A site''),
          (''techStack'', PyOther True (''['' @ [CHR 0x27] @ ''py'' @ [CHR 0x27] @ '']'')),
          (''github'', PyStr []), (''linkedin'', PyStr []),
          (''createdAt'', PyDatetime (Datetime ''2025-01-21 09:00:00'')),
          (''_id'', PyObjectId 1)]]"
  unfolding add_member_def add_project_def example_member_def example_project_def
  by (simp add: eval_defs unnamed_upload_saved example_uploads_sel example_env_sel
      empty_world_sel)

section \<open>Read results\<close>

text \<open>
  Claim C8. Every read operation returns the stored documents passed through
  \<open>mongo_id_serializer\<close> (the five \<open>get_all\<close> operations all of them, in order;
  \<open>get_user_by_email\<close> the one it found). A serialized document never has the field
  \<open>_id\<close>; when the stored document had it, the field \<open>id\<close> holds its \<open>str()\<close> form
  as a string, and every other field is as stored. After an add that succeeds, the
  \<open>get_all\<close> of that collection is what it was before followed by one new item, which
  has a string \<open>id\<close> and no \<open>_id\<close>; adding a member inserts whenever its uploads are
  accepted by the file store.
\<close>

theorem read_results_public_id:
  "get_all_projects w = map mongo_id_serializer (projects_collection w) \<and>
   get_all_members w = map mongo_id_serializer (members_collection w) \<and>
   get_all_users w = map mongo_id_serializer (users_collection w) \<and>
   get_all_gallery_items w = map mongo_id_serializer (gallery_collection w) \<and>
   get_all_blogs w = map mongo_id_serializer (blogs_collection w) \<and>
   (get_user_by_email email w = None \<or>
    (\<exists>d. find_one (users_collection w) ''email'' email = Some d \<and>
         get_user_by_email email w = Some (mongo_id_serializer d))) \<and>
   map_of (mongo_id_serializer doc) ''_id'' = None \<and>
   (map_of doc ''_id'' = Some i \<longrightarrow>
      map_of (mongo_id_serializer doc) ''id'' = Some (PyStr (py_str i))) \<and>
   (k \<noteq> ''id'' \<and> k \<noteq> ''_id'' \<longrightarrow> map_of (mongo_id_serializer doc) k = map_of doc k) \<and>
   (fst (add_project e project_data image_file w) = Inr rp \<longrightarrow>
      (\<exists>item s. get_all_projects (snd (add_project e project_data image_file w))
                   = get_all_projects w @ [item] \<and>
                 map_of item ''id'' = Some (PyStr s) \<and> map_of item ''_id'' = None)) \<and>
   (fst (add_gallery_item e gallery_data gallery_file w) = Inr rg \<longrightarrow>
      (\<exists>item s. get_all_gallery_items (snd (add_gallery_item e gallery_data gallery_file w))
                   = get_all_gallery_items w @ [item] \<and>
                 map_of item ''id'' = Some (PyStr s) \<and> map_of item ''_id'' = None)) \<and>
   (fst (add_blog e blog_data blog_file w) = Inr rb \<longrightarrow>
      (\<exists>item s. get_all_blogs (snd (add_blog e blog_data blog_file w))
                   = get_all_blogs w @ [item] \<and>
                 map_of item ''id'' = Some (PyStr s) \<and> map_of item ''_id'' = None)) \<and>
   (storable e photo_file \<and> storable e resume_file \<longrightarrow>
      (\<exists>item s. get_all_members (snd (add_member e member_data photo_file resume_file w))
                   = get_all_members w @ [item] \<and>
                 map_of item ''id'' = Some (PyStr s) \<and> map_of item ''_id'' = None))"
proof (intro conjI impI)
  show "get_all_projects w = map mongo_id_serializer (projects_collection w)"
    "get_all_members w = map mongo_id_serializer (members_collection w)"
    "get_all_users w = map mongo_id_serializer (users_collection w)"
    "get_all_gallery_items w = map mongo_id_serializer (gallery_collection w)"
    "get_all_blogs w = map mongo_id_serializer (blogs_collection w)"
    by (simp_all add: get_all_projects_def get_all_members_def get_all_users_def
        get_all_gallery_items_def get_all_blogs_def serialize_cursor_map)
  show "get_user_by_email email w = None \<or>
    (\<exists>d. find_one (users_collection w) ''email'' email = Some d \<and>
         get_user_by_email email w = Some (mongo_id_serializer d))"
    by (auto simp: get_user_by_email_def Let_def)
  show "map_of (mongo_id_serializer doc) ''_id'' = None"
    by (rule serializer_no_internal_id)
  show "map_of (mongo_id_serializer doc) ''id'' = Some (PyStr (py_str i))"
    if "map_of doc ''_id'' = Some i"
    using that by (rule serializer_public_id)
  show "map_of (mongo_id_serializer doc) k = map_of doc k" if "k \<noteq> ''id'' \<and> k \<noteq> ''_id''"
    using that by (simp add: serializer_other_fields)
  show "\<exists>item s. get_all_projects (snd (add_project e project_data image_file w))
                   = get_all_projects w @ [item] \<and>
                 map_of item ''id'' = Some (PyStr s) \<and> map_of item ''_id'' = None"
    if "fst (add_project e project_data image_file w) = Inr rp"
  proof -
    from add_project_stored[OF that] obtain stored where
      s: "projects_collection (snd (add_project e project_data image_file w)) = projects_collection w @ [stored]"
        "map_of stored ''_id'' \<noteq> None"
      by blast
    from serialized_item[OF s(2)] s(1) show ?thesis
      by (auto simp: get_all_projects_def get_all_after_append)
  qed
  show "\<exists>item s. get_all_gallery_items (snd (add_gallery_item e gallery_data gallery_file w))
                   = get_all_gallery_items w @ [item] \<and>
                 map_of item ''id'' = Some (PyStr s) \<and> map_of item ''_id'' = None"
    if "fst (add_gallery_item e gallery_data gallery_file w) = Inr rg"
  proof -
    from add_gallery_item_stored[OF that] obtain stored where
      s: "gallery_collection (snd (add_gallery_item e gallery_data gallery_file w)) = gallery_collection w @ [stored]"
        "map_of stored ''_id'' \<noteq> None"
      by blast
    from serialized_item[OF s(2)] s(1) show ?thesis
      by (auto simp: get_all_gallery_items_def get_all_after_append)
  qed
  show "\<exists>item s. get_all_blogs (snd (add_blog e blog_data blog_file w))
                   = get_all_blogs w @ [item] \<and>
                 map_of item ''id'' = Some (PyStr s) \<and> map_of item ''_id'' = None"
    if "fst (add_blog e blog_data blog_file w) = Inr rb"
  proof -
    from add_blog_stored[OF that] obtain stored where
      s: "blogs_collection (snd (add_blog e blog_data blog_file w)) = blogs_collection w @ [stored]"
        "map_of stored ''_id'' \<noteq> None"
      by blast
    from serialized_item[OF s(2)] s(1) show ?thesis
      by (auto simp: get_all_blogs_def get_all_after_append)
  qed
  show "\<exists>item s. get_all_members (snd (add_member e member_data photo_file resume_file w))
                   = get_all_members w @ [item] \<and>
                 map_of item ''id'' = Some (PyStr s) \<and> map_of item ''_id'' = None"
    if "storable e photo_file \<and> storable e resume_file"
  proof -
    from that have sp: "storable e photo_file" and sr: "storable e resume_file" by simp_all
    from add_member_members[OF sp sr, of member_data w] obtain stored where
      s: "members_collection (snd (add_member e member_data photo_file resume_file w)) = members_collection w @ [stored]"
        "map_of stored ''_id'' \<noteq> None"
      by blast
    from serialized_item[OF s(2)] s(1) show ?thesis
      by (auto simp: get_all_members_def get_all_after_append)
  qed
qed

theorem read_results_public_id_witness:
  "map_of [(''title'', PyStr ''Hive''), (''_id'', PyObjectId 2)] ''_id'' = Some (PyObjectId 2) \<and>
   mongo_id_serializer [(''title'', PyStr ''Hive''), (''_id'', PyObjectId 2)]
     = [(''title'', PyStr ''Hive''), (''id'', PyStr ''000000000000000000000002'')] \<and>
   fst (add_project example_env example_project (Some example_photo) empty_world)
     = Inr (result_dict ''success'' ''Project added successfully'') \<and>
   fst (add_gallery_item example_env example_project None empty_world)
     = Inr (result_dict ''success'' ''Gallery item added successfully'') \<and>
   fst (add_blog example_env example_project None empty_world)
     = Inr (result_dict ''success'' ''Blog post added successfully'') \<and>
   get_all_projects (snd (add_project example_env example_project (Some example_photo) empty_world))
     = [[(''title'', PyStr ''Hive''), (''description'', PyStr ''A site''),
         (''techStack'', PyOther True (''['' @ [CHR 0x27] @ ''py'' @ [CHR 0x27] @ '']'')),
         (''github'', PyStr []), (''linkedin'', PyStr []),
         (''imageUrl'', PyStr ''/uploads/0000000000000000000000000000002a.gz''),
         (''createdAt'', PyDatetime (Datetime ''2025-01-21 09:00:00'')),
         (''id'', PyStr ''000000000000000000000002'')]] \<and>
   (\<exists>item s. get_all_gallery_items (snd (add_gallery_item example_env example_project None empty_world))
                = get_all_gallery_items empty_world @ [item] \<and>
              map_of item ''id'' = Some (PyStr s) \<and> map_of item ''_id'' = None) \<and>
   (\<exists>item s. get_all_blogs (snd (add_blog example_env example_project None empty_world))
                = get_all_blogs empty_world @ [item] \<and>
              map_of item ''id'' = Some (PyStr s) \<and> map_of item ''_id'' = None) \<and>
   storable example_env (Some example_photo) \<and>
   storable example_env None \<and>
   (\<exists>item s. get_all_members
                (snd (add_member example_env example_member (Some example_photo) None empty_world))
                = get_all_members empty_world @ [item] \<and>
              map_of item ''id'' = Some (PyStr s) \<and> map_of item ''_id'' = None)"
proof -
  have noid: "map_of example_project ''_id'' = None"
    by (simp add: example_project_def)
  note sn = example_uploads_storable(1)
  note sp = example_uploads_storable(3)
  note g = add_gallery_item_succeeds[OF noid sn, of empty_world]
  note b = add_blog_succeeds[OF noid sn, of empty_world]
  note t = read_results_public_id[where e = example_env and w = empty_world
      and doc = "[(''title'', PyStr ''Hive''), (''_id'', PyObjectId 2)]" and i = "PyObjectId 2"
      and k = "''title''"
      and project_data = example_project and image_file = "Some example_photo"
      and rp = "result_dict ''success'' ''Project added successfully''"
      and gallery_data = example_project and gallery_file = None
      and rg = "result_dict ''success'' ''Gallery item added successfully''"
      and blog_data = example_project and blog_file = None
      and rb = "result_dict ''success'' ''Blog post added successfully''"
      and photo_file = "Some example_photo" and resume_file = None
      and member_data = example_member]
  have ser: "mongo_id_serializer [(''title'', PyStr ''Hive''), (''_id'', PyObjectId 2)]
     = [(''title'', PyStr ''Hive''), (''id'', PyStr ''000000000000000000000002'')]"
    by (simp add: mongo_id_serializer_def dict_set_def dict_del_def hex_24_example)
  have p: "get_all_projects (snd (add_project example_env example_project (Some example_photo) empty_world))
     = [[(''title'', PyStr ''Hive''), (''description'', PyStr ''A site''),
         (''techStack'', PyOther True (''['' @ [CHR 0x27] @ ''py'' @ [CHR 0x27] @ '']'')),
         (''github'', PyStr []), (''linkedin'', PyStr []),
         (''imageUrl'', PyStr ''/uploads/0000000000000000000000000000002a.gz''),
         (''createdAt'', PyDatetime (Datetime ''2025-01-21 09:00:00'')),
         (''id'', PyStr ''000000000000000000000002'')]]"
    by (simp add: example_project_added get_all_projects_def mongo_id_serializer_def
        dict_set_def dict_del_def hex_24_example)
  from t g have G: "\<exists>item s. get_all_gallery_items (snd (add_gallery_item example_env example_project None empty_world))
                = get_all_gallery_items empty_world @ [item] \<and>
              map_of item ''id'' = Some (PyStr s) \<and> map_of item ''_id'' = None"
    by blast
  from t b have B: "\<exists>item s. get_all_blogs (snd (add_blog example_env example_project None empty_world))
                = get_all_blogs empty_world @ [item] \<and>
              map_of item ''id'' = Some (PyStr s) \<and> map_of item ''_id'' = None"
    by blast
  have i: "map_of [(''title'', PyStr ''Hive''), (''_id'', PyObjectId 2)] ''_id'' = Some (PyObjectId 2)"
    by simp
  have a: "fst (add_project example_env example_project (Some example_photo) empty_world)
     = Inr (result_dict ''success'' ''Project added successfully'')"
    by (simp add: example_project_added)
  from t sp sn have M: "\<exists>item s. get_all_members
                (snd (add_member example_env example_member (Some example_photo) None empty_world))
                = get_all_members empty_world @ [item] \<and>
              map_of item ''id'' = Some (PyStr s) \<and> map_of item ''_id'' = None"
    by blast
  from i ser a g b p G B sp sn M show ?thesis
    by (intro conjI)
qed

section \<open>The login gate\<close>

text \<open>
  Claim C5. When the session holds no email (none, or an empty one), or the email in
  the session is that of no stored user, there is no current user and \<open>require_login\<close>
  raises the HTTP exception with status 307 whose \<open>Location\<close> is \<open>/login?next=\<close>
  followed by the request URL quoted with no safe characters (so made of unreserved
  characters and percent escapes only). When the email in the session is that of a
  stored user, that user is the current user and \<open>require_login\<close> returns it.
\<close>

theorem require_login_spec:
  "(\<not> truthy (dict_get (session req) ''user_email'') \<longrightarrow>
      get_current_user req w = None \<and>
      require_login req w =
        Inl (HTTPException HTTP_307_TEMPORARY_REDIRECT
               [(''Location'', ''/login?next='' @ quote (url req) [])])) \<and>
   (truthy (dict_get (session req) ''user_email'') \<and>
    get_user_by_email (dict_get (session req) ''user_email'') w = None \<longrightarrow>
      get_current_user req w = None \<and>
      require_login req w =
        Inl (HTTPException HTTP_307_TEMPORARY_REDIRECT
               [(''Location'', ''/login?next='' @ quote (url req) [])])) \<and>
   (truthy (dict_get (session req) ''user_email'') \<and>
    get_user_by_email (dict_get (session req) ''user_email'') w = Some u \<longrightarrow>
      get_current_user req w = Some u \<and> require_login req w = Inr u) \<and>
   set (quote (url req) []) \<subseteq> set ALWAYS_SAFE \<union> {CHR ''%''}"
proof (intro conjI impI)
  assume "\<not> truthy (dict_get (session req) ''user_email'')"
  then show "get_current_user req w = None"
    and "require_login req w =
        Inl (HTTPException HTTP_307_TEMPORARY_REDIRECT
               [(''Location'', ''/login?next='' @ quote (url req) [])])"
    by (simp_all add: require_login_def get_current_user_cases Let_def)
next
  assume "truthy (dict_get (session req) ''user_email'') \<and>
    get_user_by_email (dict_get (session req) ''user_email'') w = None"
  then show "get_current_user req w = None"
    and "require_login req w =
        Inl (HTTPException HTTP_307_TEMPORARY_REDIRECT
               [(''Location'', ''/login?next='' @ quote (url req) [])])"
    by (simp_all add: require_login_def get_current_user_cases Let_def)
next
  assume a: "truthy (dict_get (session req) ''user_email'') \<and>
    get_user_by_email (dict_get (session req) ''user_email'') w = Some u"
  then have "u \<noteq> []"
    using get_user_by_email_Some[of "dict_get (session req) ''user_email''" w u] by simp
  with a show "get_current_user req w = Some u" and "require_login req w = Inr u"
    by (simp_all add: require_login_def get_current_user_cases Let_def)
next
  show "set (quote (url req) []) \<subseteq> set ALWAYS_SAFE \<union> {CHR ''%''}"
    using quote_chars[of "url req" "[]"] by simp
qed

theorem require_login_spec_witness:
  "\<not> truthy (dict_get (session anonymous_request) ''user_email'') \<and>
   require_login anonymous_request ann_world
     = Inl (HTTPException 307
              [(''Location'', ''/login?next=http%3A%2F%2Fh%2Fadd-member%3Fx%3D1'')]) \<and>
   truthy (dict_get (session stale_request) ''user_email'') \<and>
   get_user_by_email (dict_get (session stale_request) ''user_email'') ann_world = None \<and>
   require_login stale_request ann_world
     = Inl (HTTPException 307
              [(''Location'', ''/login?next=http%3A%2F%2Fh%2Fadd-member%3Fx%3D1'')]) \<and>
   truthy (dict_get (session ann_request) ''user_email'') \<and>
   require_login ann_request ann_world
     = Inr [(''name'', PyStr ''Ann''), (''email'', PyStr ''ann@example.org''),
            (''password'', PyStr ''$2b$terces''),
            (''createdAt'', PyDatetime (Datetime ''2025-01-21 09:00:00'')),
            (''id'', PyStr ''000000000000000000000004'')]"
proof -
  have a: "dict_get (session anonymous_request) ''user_email'' = PyNone"
    "url anonymous_request = ''http://h/add-member?x=1''"
    by (simp_all add: anonymous_request_def dict_get_def)
  have s: "dict_get (session stale_request) ''user_email'' = PyStr ''zed@example.org''"
    "url stale_request = ''http://h/add-member?x=1''"
    by (simp_all add: stale_request_def dict_get_def)
  have n: "dict_get (session ann_request) ''user_email'' = PyStr ''ann@example.org''"
    by (simp_all add: ann_request_def dict_get_def)
  show ?thesis
    using require_login_spec[of anonymous_request ann_world]
      require_login_spec[of stale_request ann_world]
      require_login_spec[of ann_request ann_world
        "[(''name'', PyStr ''Ann''), (''email'', PyStr ''ann@example.org''),
            (''password'', PyStr ''$2b$terces''),
            (''createdAt'', PyDatetime (Datetime ''2025-01-21 09:00:00'')),
            (''id'', PyStr ''000000000000000000000004'')]"]
    by (simp add: a s n ann_lookup quote_example HTTP_307_TEMPORARY_REDIRECT_def)
qed

section \<open>Login\<close>

text \<open>
  Claim C4, amended. When no user is stored for the email, or the stored digest does
  not verify the password, \<open>handle_login\<close> answers with a redirect (303) to the login
  page with the error flag (a URL starting with \<open>/login?error=1\<close>) and leaves the
  session as it was. When the password does not verify, the redirect carries the
  return-to URL, quoted, as \<open>&next=\<close> if it is not empty and starts with \<open>/\<close>, and
  carries nothing more otherwise.
\<close>

theorem handle_login_failure:
  "(get_user_by_email (PyStr email) w = None \<longrightarrow>
      (\<exists>rest. fst (handle_login e req email password next_url w) =
                 Inr (RedirectResponse (''/login?error=1'' @ rest) HTTP_303_SEE_OTHER)) \<and>
      snd (handle_login e req email password next_url w) = session req) \<and>
   (get_user_by_email (PyStr email) w = Some u \<and>
    map_of u ''password'' = Some digest \<and>
    pwd_verify e password digest = Inr False \<longrightarrow>
      fst (handle_login e req email password next_url w) =
        Inr (RedirectResponse
               (''/login?error=1'' @
                  (if next_url \<noteq> [] \<and> startswith_slash next_url
                   then ''&next='' @ quote next_url ''/'' else []))
               HTTP_303_SEE_OTHER) \<and>
      snd (handle_login e req email password next_url w) = session req)"
proof (intro conjI impI)
  assume "get_user_by_email (PyStr email) w = None"
  then have "handle_login e req email password next_url w =
      (Inr (RedirectResponse (''/login?error=1'' @ []) HTTP_303_SEE_OTHER), session req)"
    by (simp add: handle_login_def)
  then show "\<exists>rest. fst (handle_login e req email password next_url w) =
                 Inr (RedirectResponse (''/login?error=1'' @ rest) HTTP_303_SEE_OTHER)"
    and "snd (handle_login e req email password next_url w) = session req"
    by (metis fst_conv, simp)
next
  assume a: "get_user_by_email (PyStr email) w = Some u \<and>
    map_of u ''password'' = Some digest \<and>
    pwd_verify e password digest = Inr False"
  then have ne: "u \<noteq> []"
    using get_user_by_email_str[of email w u] by simp
  from a have d: "dict_index u ''password'' = Inr digest"
    by (simp add: dict_index_Some)
  from a ne d show "fst (handle_login e req email password next_url w) =
        Inr (RedirectResponse
               (''/login?error=1'' @
                  (if next_url \<noteq> [] \<and> startswith_slash next_url
                   then ''&next='' @ quote next_url ''/'' else []))
               HTTP_303_SEE_OTHER)"
    and "snd (handle_login e req email password next_url w) = session req"
    by (simp_all add: handle_login_def Let_def)
qed

theorem handle_login_failure_witness:
  "get_user_by_email (PyStr ''zed@example.org'') ann_world = None \<and>
   snd (handle_login example_env ann_request ''zed@example.org'' ''secret''
          ''/add-member'' ann_world) = session ann_request \<and>
   get_user_by_email (PyStr ''ann@example.org'') ann_world \<noteq> None \<and>
   pwd_verify example_env ''wrong'' (PyStr ''$2b$terces'') = Inr False \<and>
   handle_login example_env anonymous_request ''ann@example.org'' ''wrong''
       ''/add member'' ann_world
     = (Inr (RedirectResponse ''/login?error=1&next=/add%20member'' 303), [])"
proof -
  let ?u = "[(''name'', PyStr ''Ann''), (''email'', PyStr ''ann@example.org''),
           (''password'', PyStr ''$2b$terces''),
           (''createdAt'', PyDatetime (Datetime ''2025-01-21 09:00:00'')),
           (''id'', PyStr ''000000000000000000000004'')]"
  have f: "get_user_by_email (PyStr ''ann@example.org'') ann_world = Some ?u"
    and z: "get_user_by_email (PyStr ''zed@example.org'') ann_world = None"
    by (rule ann_lookup)+
  have d: "map_of ?u ''password'' = Some (PyStr ''$2b$terces'')"
    by simp
  have v: "pwd_verify example_env ''wrong'' (PyStr ''$2b$terces'') = Inr False"
    by (simp add: example_env_sel)
  have q: "quote ''/add member'' ''/'' = ''/add%20member''" by code_simp
  from handle_login_failure[of "''zed@example.org''" ann_world example_env ann_request
      "''secret''" "''/add-member''"] z
  have a: "snd (handle_login example_env ann_request ''zed@example.org'' ''secret''
          ''/add-member'' ann_world) = session ann_request"
    by simp
  from handle_login_failure[of "''ann@example.org''" ann_world example_env anonymous_request
      "''wrong''" "''/add member''" ?u "PyStr ''$2b$terces''"] f d v
  have b: "handle_login example_env anonymous_request ''ann@example.org'' ''wrong''
       ''/add member'' ann_world
     = (Inr (RedirectResponse ''/login?error=1&next=/add%20member'' 303), [])"
    by (simp add: prod_eq_iff startswith_slash_def HTTP_303_SEE_OTHER_def
        login_request_sel q)
  from z a f v b show ?thesis by simp
qed

text \<open>
  Claim C4 as it is written does not hold: a login with a wrong password and a
  return-to URL that does not start with \<open>/\<close> (here the absolute URL of the
  protected page, which is what \<open>require_login\<close> hands to the login page) answers
  with the bare error redirect, the return-to URL dropped.
\<close>

theorem handle_login_return_to_dropped:
  "get_user_by_email (PyStr ''ann@example.org'') ann_world \<noteq> None \<and>
   pwd_verify example_env ''wrong'' (PyStr ''$2b$terces'') = Inr False \<and>
   url anonymous_request = ''http://h/add-member?x=1'' \<and>
   handle_login example_env anonymous_request ''ann@example.org'' ''wrong''
       ''http://h/add-member?x=1'' ann_world
     = (Inr (RedirectResponse ''/login?error=1'' 303), [])"
  by (simp add: handle_login_def ann_lookup dict_index_def example_env_sel Let_def
      startswith_slash_def HTTP_303_SEE_OTHER_def anonymous_request_def)

text \<open>
  With an unknown email the return-to URL is dropped even when it is a path of this
  site, where a wrong password keeps it.
\<close>

lemma handle_login_unknown_email_drops_next:
  "get_user_by_email (PyStr ''zed@example.org'') ann_world = None \<and>
   handle_login example_env anonymous_request ''zed@example.org'' ''secret''
       ''/add-member'' ann_world
     = (Inr (RedirectResponse ''/login?error=1'' 303), []) \<and>
   handle_login example_env anonymous_request ''ann@example.org'' ''wrong''
       ''/add-member'' ann_world
     = (Inr (RedirectResponse ''/login?error=1&next=/add-member'' 303), [])"
proof -
  have q: "quote ''/add-member'' ''/'' = ''/add-member''" by code_simp
  show ?thesis
    by (simp add: handle_login_def ann_lookup dict_index_def example_env_sel Let_def
      startswith_slash_def HTTP_303_SEE_OTHER_def login_request_sel q)
qed

text \<open>
  Claim C6. When the email is that of a stored user, the user document has a password
  digest that verifies the submitted password, and it has a name (as every user
  document \<open>add_member\<close> inserts has), \<open>handle_login\<close> stores the user's email under
  \<open>user_email\<close> and the user's name under \<open>user_name\<close> in the session, leaving every
  other key of the session alone; the current user of that session is then this user.
  The answer is a redirect (303) to the submitted return-to URL if it is not empty and
  starts with \<open>/\<close>, and to \<open>/add-project\<close> otherwise.
\<close>

theorem handle_login_success:
  assumes found: "get_user_by_email (PyStr email) w = Some u"
    and digest: "map_of u ''password'' = Some digest"
    and verified: "pwd_verify e password digest = Inr True"
    and named: "map_of u ''name'' = Some name"
  shows "fst (handle_login e req email password next_url w) =
           Inr (RedirectResponse
                  (if next_url \<noteq> [] \<and> startswith_slash next_url then next_url
                   else ''/add-project'')
                  HTTP_303_SEE_OTHER) \<and>
         snd (handle_login e req email password next_url w) =
           dict_set (dict_set (session req) ''user_email'' (PyStr email)) ''user_name'' name \<and>
         map_of (snd (handle_login e req email password next_url w)) ''user_email''
           = Some (PyStr email) \<and>
         map_of (snd (handle_login e req email password next_url w)) ''user_name''
           = Some name \<and>
         map_of u ''email'' = Some (PyStr email) \<and>
         (\<forall>k. k \<noteq> ''user_email'' \<and> k \<noteq> ''user_name'' \<longrightarrow>
            map_of (snd (handle_login e req email password next_url w)) k
              = map_of (session req) k) \<and>
         (email \<noteq> [] \<longrightarrow>
            get_current_user
              (req\<lparr>session := snd (handle_login e req email password next_url w)\<rparr>) w = Some u)"
proof -
  from get_user_by_email_str[OF found] have ne: "u \<noteq> []"
    and em: "map_of u ''email'' = Some (PyStr email)"
    by simp_all
  have r: "handle_login e req email password next_url w =
      (Inr (RedirectResponse
                  (if next_url \<noteq> [] \<and> startswith_slash next_url then next_url
                   else ''/add-project'')
                  HTTP_303_SEE_OTHER),
       dict_set (dict_set (session req) ''user_email'' (PyStr email)) ''user_name'' name)"
    unfolding handle_login_def
    by (simp add: found ne dict_index_Some[OF digest] dict_index_Some[OF em]
        dict_index_Some[OF named] verified Let_def)
  have cur: "get_current_user
      (req\<lparr>session := dict_set (dict_set (session req) ''user_email'' (PyStr email))
                          ''user_name'' name\<rparr>) w = Some u"
    if "email \<noteq> []"
    using that found
    by (simp add: get_current_user_cases dict_get_def dict_set_def update_conv')
  show ?thesis
    unfolding r using em cur by (simp add: dict_set_def update_conv')
qed

theorem handle_login_success_witness:
  "get_user_by_email (PyStr ''ann@example.org'') ann_world \<noteq> None \<and>
   pwd_verify example_env ''secret'' (PyStr ''$2b$terces'') = Inr True \<and>
   handle_login example_env anonymous_request ''ann@example.org'' ''secret''
       ''/add-member'' ann_world
     = (Inr (RedirectResponse ''/add-member'' 303),
        [(''user_email'', PyStr ''ann@example.org''), (''user_name'', PyStr ''Ann'')]) \<and>
   handle_login example_env anonymous_request ''ann@example.org'' ''secret''
       ''https://evil.example/'' ann_world
     = (Inr (RedirectResponse ''/add-project'' 303),
        [(''user_email'', PyStr ''ann@example.org''), (''user_name'', PyStr ''Ann'')]) \<and>
   get_current_user
     (anonymous_request\<lparr>session :=
        snd (handle_login example_env anonymous_request ''ann@example.org'' ''secret''
               ''/add-member'' ann_world)\<rparr>) ann_world
     = get_user_by_email (PyStr ''ann@example.org'') ann_world"
proof -
  let ?u = "[(''name'', PyStr ''Ann''), (''email'', PyStr ''ann@example.org''),
           (''password'', PyStr ''$2b$terces''),
           (''createdAt'', PyDatetime (Datetime ''2025-01-21 09:00:00'')),
           (''id'', PyStr ''000000000000000000000004'')]"
  have f: "get_user_by_email (PyStr ''ann@example.org'') ann_world = Some ?u"
    by (rule ann_lookup)
  have d: "map_of ?u ''password'' = Some (PyStr ''$2b$terces'')"
    and n: "map_of ?u ''name'' = Some (PyStr ''Ann'')"
    by simp_all
  have v: "pwd_verify example_env ''secret'' (PyStr ''$2b$terces'') = Inr True"
    by (simp add: example_env_sel)
  note t1 = handle_login_success[OF f d v n, of anonymous_request "''/add-member''"]
  note t2 = handle_login_success[OF f d v n, of anonymous_request "''https://evil.example/''"]
  have "handle_login example_env anonymous_request ''ann@example.org'' ''secret''
       ''/add-member'' ann_world
     = (Inr (RedirectResponse ''/add-member'' 303),
        [(''user_email'', PyStr ''ann@example.org''), (''user_name'', PyStr ''Ann'')])"
    using t1 by (simp add: prod_eq_iff startswith_slash_def HTTP_303_SEE_OTHER_def
        login_request_sel dict_set_def)
  moreover have "handle_login example_env anonymous_request ''ann@example.org'' ''secret''
       ''https://evil.example/'' ann_world
     = (Inr (RedirectResponse ''/add-project'' 303),
        [(''user_email'', PyStr ''ann@example.org''), (''user_name'', PyStr ''Ann'')])"
    using t2 by (simp add: prod_eq_iff startswith_slash_def HTTP_303_SEE_OTHER_def
        login_request_sel dict_set_def)
  moreover have "get_current_user
     (anonymous_request\<lparr>session :=
        snd (handle_login example_env anonymous_request ''ann@example.org'' ''secret''
               ''/add-member'' ann_world)\<rparr>) ann_world
     = get_user_by_email (PyStr ''ann@example.org'') ann_world"
  proof -
    have "''ann@example.org'' \<noteq> []" by simp
    with t1 have "get_current_user
       (anonymous_request\<lparr>session :=
          snd (handle_login example_env anonymous_request ''ann@example.org'' ''secret''
                 ''/add-member'' ann_world)\<rparr>) ann_world = Some ?u"
      by blast
    then show ?thesis by (simp only: f)
  qed
  ultimately show ?thesis using f v by simp
qed

section \<open>Logout\<close>

text \<open>
  Claim C9. \<open>handle_logout\<close> answers with a redirect (303) to \<open>/\<close> and leaves an empty
  session, whatever the session was; with the session it leaves, there is no current
  user in any world. Logging out again gives the same response and the same request
  state, and logging out of an empty session changes nothing.
\<close>

theorem handle_logout_spec:
  "fst (handle_logout req) = RedirectResponse ''/'' HTTP_303_SEE_OTHER \<and>
   session (snd (handle_logout req)) = [] \<and>
   url (snd (handle_logout req)) = url req \<and>
   get_current_user (snd (handle_logout req)) w = None \<and>
   handle_logout (snd (handle_logout req)) = handle_logout req \<and>
   (session req = [] \<longrightarrow> snd (handle_logout req) = req)"
  by (simp add: handle_logout_def get_current_user_cases dict_get_def)

theorem handle_logout_spec_witness:
  "session anonymous_request = [] \<and>
   snd (handle_logout anonymous_request) = anonymous_request \<and>
   session (snd (handle_logout ann_request)) = [] \<and>
   get_current_user ann_request ann_world \<noteq> None \<and>
   get_current_user (snd (handle_logout ann_request)) ann_world = None \<and>
   handle_logout (snd (handle_logout ann_request)) = handle_logout ann_request"
proof -
  have e: "session anonymous_request = []"
    by (simp add: anonymous_request_def)
  have c: "get_current_user ann_request ann_world \<noteq> None"
    by (simp add: get_current_user_cases ann_request_def dict_get_def ann_lookup)
  from e c handle_logout_spec[of anonymous_request ann_world]
    handle_logout_spec[of ann_request ann_world]
  show ?thesis by simp
qed

end
